theory Spec2Isabelle
  imports Main "HOL-Library.Word" "HOL-Library.Sublist" "HOL-Library.AList"
begin

section \<open>JavaScript values used by the two scripts\<close>

text \<open>
  A JavaScript string is a sequence of UTF-16 code units; \<open>substring\<close>, \<open>trim\<close>,
  \<open>===\<close> and \<open>+\<close> all work on code units. String literals of the source are
  written \<open>js ''...''\<close>.
\<close>

type_synonym jsstring = "16 word list"

definition js :: "string \<Rightarrow> jsstring" where
  "js s = map of_char s"

text \<open>
  Truthiness of a value that is a string, \<open>undefined\<close> or \<open>null\<close> (\<open>None\<close>):
  \<open>!v\<close> holds for \<open>undefined\<close>, \<open>null\<close> and the empty string.
\<close>

definition truthy :: "jsstring option \<Rightarrow> bool" where
  "truthy v = (case v of None \<Rightarrow> False | Some s \<Rightarrow> s \<noteq> [])"

text \<open>
  The code units that \<open>String.prototype.trim\<close> removes: ECMAScript WhiteSpace
  (TAB, VT, FF, SP, NBSP, ZWNBSP and the Unicode space separators) and LineTerminator
  (LF, CR, LS, PS).
\<close>

definition is_js_whitespace :: "16 word \<Rightarrow> bool" where
  "is_js_whitespace c \<longleftrightarrow>
     c \<in> set [0x0009, 0x000A, 0x000B, 0x000C, 0x000D, 0x0020, 0x00A0, 0x1680,
              0x2000, 0x2001, 0x2002, 0x2003, 0x2004, 0x2005, 0x2006, 0x2007,
              0x2008, 0x2009, 0x200A, 0x2028, 0x2029, 0x202F, 0x205F, 0x3000, 0xFEFF]"

definition trim :: "jsstring \<Rightarrow> jsstring" where
  "trim s = rev (dropWhile is_js_whitespace (rev (dropWhile is_js_whitespace s)))"

text \<open>
  \<open>s.substring(a, b)\<close> for non-negative integer arguments: both are clamped to the
  length and swapped when \<open>a > b\<close>.
\<close>

definition substring :: "jsstring \<Rightarrow> nat \<Rightarrow> nat \<Rightarrow> jsstring" where
  "substring s a b =
     (let a' = min a (length s); b' = min b (length s);
          lo = min a' b'; hi = max a' b'
      in take (hi - lo) (drop lo s))"

text \<open>
  Conversion of an integral Number to a string, as \<open>+\<close> with a string operand and
  template literals do: decimal digits, no padding, a minus sign when negative.
\<close>

fun nat_digits :: "nat \<Rightarrow> jsstring" where
  "nat_digits n =
     (if n < 10 then [of_nat (48 + n)]
      else nat_digits (n div 10) @ [of_nat (48 + n mod 10)])"

declare nat_digits.simps [simp del]

definition Number_toString :: "int \<Rightarrow> jsstring" where
  "Number_toString i =
     (if i < 0 then js ''-'' @ nat_digits (nat (- i)) else nat_digits (nat i))"

text \<open>The number that a string of decimal digits denotes.\<close>

definition decimal_value :: "jsstring \<Rightarrow> nat" where
  "decimal_value s = foldl (\<lambda>a c. 10 * a + (unat c - 48)) 0 s"

text \<open>
  A thrown value is an Error object; \<open>e.toString()\<close> is \<open>Error.prototype.toString\<close>.
\<close>

datatype js_error = JsError (err_name: jsstring) (err_message: jsstring) (err_stack: jsstring)

definition toString :: "js_error \<Rightarrow> jsstring" where
  "toString e =
     (if err_name e = [] then err_message e
      else if err_message e = [] then err_name e
      else err_name e @ js '': '' @ err_message e)"

section \<open>Sync pipeline: Google Tasks to Todoist\<close>

subsection \<open>Data\<close>

text \<open>
  A Google Tasks link \<open>{type, link}\<close>, a task (\<open>id\<close>, \<open>title\<close>, \<open>notes\<close>, \<open>links\<close>,
  \<open>due\<close>; every field but the id may be missing) and a task list (\<open>id\<close>, \<open>title\<close>).
  Field names that several objects share, or that Isabelle reserves, carry the
  object's name as a prefix.
\<close>

record gtask_link =
  type :: jsstring
  link :: jsstring

record gtask =
  task_id :: jsstring
  title :: "jsstring option"
  task_notes :: "jsstring option"
  links :: "gtask_link list option"
  due :: "jsstring option"

record tasklist =
  tasklist_id :: jsstring
  tasklist_title :: jsstring

text \<open>The object \<open>todoistPayload\<close>; \<open>due_date\<close> is \<open>None\<close> when the property is never set.\<close>

record payload =
  content :: jsstring
  description :: jsstring
  due_date :: "jsstring option"

record http_response =
  getResponseCode :: int
  getContentText :: jsstring

subsection \<open>External services\<close>

text \<open>
  The services the scripts call are functions on a world state \<open>'w\<close> that the scripts
  never inspect: each call returns its outcome and the next world. A call that throws
  returns \<open>Inl\<close> of the error. \<open>Tasks.Tasklists.list().items\<close> and
  \<open>Tasks.Tasks.list(..).items\<close> may be undefined (\<open>None\<close>). \<open>fetch_post\<close> is
  \<open>UrlFetchApp.fetch\<close> with method post, content type JSON, the given Authorization
  header, the stringified payload and \<open>muteHttpExceptions\<close>.
\<close>

record 'w tasks_services =
  Tasklists_list :: "'w \<Rightarrow> (js_error + tasklist list option) \<times> 'w"
  Tasks_list :: "jsstring \<Rightarrow> 'w \<Rightarrow> (js_error + gtask list option) \<times> 'w"
  Tasks_remove :: "jsstring \<Rightarrow> jsstring \<Rightarrow> 'w \<Rightarrow> js_error option \<times> 'w"
  fetch_post :: "jsstring \<Rightarrow> jsstring \<Rightarrow> payload \<Rightarrow> 'w \<Rightarrow> (js_error + http_response) \<times> 'w"

text \<open>What a run does to the outside, in order: the calls it issues and the lines it logs.\<close>

datatype sync_event =
    ConsoleLog jsstring
  | ConsoleError jsstring
  | CallTasklistsList
  | CallTasksList jsstring
  | CallTasksRemove jsstring jsstring
  | CallFetchPost jsstring jsstring payload

subsection \<open>\<open>createTodoistTask_\<close>\<close>

definition TODOIST_API_URL :: jsstring where
  "TODOIST_API_URL = js ''https://api.todoist.com/rest/v2/tasks''"

text \<open>
  Returns the response on status 200 and \<open>null\<close> (\<open>None\<close>) on any other status or
  when the fetch throws. (Isabelle names cannot end in an underscore.)
\<close>

definition createTodoistTask ::
  "'w tasks_services \<Rightarrow> payload \<Rightarrow> jsstring \<Rightarrow> 'w \<Rightarrow> sync_event list \<times> http_response option \<times> 'w"
where
  "createTodoistTask svc p apiToken w =
     (let auth = js ''Bearer '' @ apiToken in
      case fetch_post svc TODOIST_API_URL auth p w of
        (Inr response, w') \<Rightarrow>
          (let responseCode = getResponseCode response in
           if responseCode = 200 then
             ([CallFetchPost TODOIST_API_URL auth p], Some response, w')
           else
             ([CallFetchPost TODOIST_API_URL auth p,
               ConsoleError (js ''Todoist API returned an error. Status: ''
                 @ Number_toString responseCode @ js ''. Response: ''
                 @ getContentText response)],
              None, w'))
      | (Inl e, w') \<Rightarrow>
          ([CallFetchPost TODOIST_API_URL auth p,
            ConsoleError (js ''Failed to call Todoist API. Error: '' @ toString e)],
           None, w'))"

subsection \<open>The body of \<open>tasks.items.forEach\<close>\<close>

text \<open>\<open>task.links.find(link => link.type === 'email')\<close>, when \<open>task.links\<close> is there.\<close>

definition emailLink :: "gtask \<Rightarrow> gtask_link option" where
  "emailLink task =
     (case links task of
        None \<Rightarrow> None
      | Some ls \<Rightarrow> find (\<lambda>l. type l = js ''email'') ls)"

text \<open>The variable \<open>description\<close> when the payload is built, before \<open>trim\<close>.\<close>

definition description_of :: "gtask \<Rightarrow> jsstring" where
  "description_of task =
     (let description = (case task_notes task of None \<Rightarrow> [] | Some n \<Rightarrow> n) in
      case emailLink task of
        None \<Rightarrow> description
      | Some l \<Rightarrow>
          (if description \<noteq> [] then description @ js ''\<newline>\<newline>---\<newline>'' else description)
            @ js ''Linked Email: '' @ link l)"

text \<open>
  \<open>todoistPayload\<close>: \<open>None\<close> when the callback returns early because the task has no
  title; otherwise the payload passed to \<open>createTodoistTask_\<close>.
\<close>

definition todoistPayload :: "gtask \<Rightarrow> payload option" where
  "todoistPayload task =
     (case title task of
        None \<Rightarrow> None
      | Some t \<Rightarrow>
          if t = [] then None
          else Some \<lparr> content = t,
                      description = trim (description_of task),
                      due_date =
                        (case due task of
                           None \<Rightarrow> None
                         | Some d \<Rightarrow> if d = [] then None else Some (substring d 0 10)) \<rparr>)"

definition quoted :: "jsstring \<Rightarrow> jsstring" where
  "quoted s = js ''\"'' @ s @ js ''\"''"

text \<open>
  One call of the \<open>forEach\<close> callback. \<open>getContentText\<close> of a response that was
  received is taken not to throw.
\<close>

definition processTask ::
  "'w tasks_services \<Rightarrow> jsstring \<Rightarrow> jsstring \<Rightarrow> gtask \<Rightarrow> 'w \<Rightarrow> sync_event list \<times> 'w"
where
  "processTask svc taskListId apiToken task w =
     (case todoistPayload task of
        None \<Rightarrow> ([], w)
      | Some p \<Rightarrow>
          (let pre = ConsoleLog (js ''Processing task: '' @ quoted (content p))
                 # (case emailLink task of
                      None \<Rightarrow> []
                    | Some l \<Rightarrow> [ConsoleLog (js ''Found linked email: '' @ link l)])
           in
           case createTodoistTask svc p apiToken w of
             (ev, Some todoistResponse, w1) \<Rightarrow>
               (let ok = ConsoleLog (js ''Successfully created task in Todoist: ''
                           @ quoted (content p) @ js ''. Response: ''
                           @ getContentText todoistResponse)
                in
                case Tasks_remove svc taskListId (task_id task) w1 of
                  (None, w2) \<Rightarrow>
                    (pre @ ev @ [ok, CallTasksRemove taskListId (task_id task),
                       ConsoleLog (js ''Successfully deleted task from Google Tasks: ''
                         @ quoted (content p))],
                     w2)
                | (Some e, w2) \<Rightarrow>
                    (pre @ ev @ [ok, CallTasksRemove taskListId (task_id task),
                       ConsoleError (js ''Failed to delete task from Google Tasks (ID: ''
                         @ task_id task
                         @ js ''). Please delete it manually to avoid duplicates. Error: ''
                         @ toString e)],
                     w2))
           | (ev, None, w1) \<Rightarrow>
               (pre @ ev @ [ConsoleError (js ''Failed to create task in Todoist: ''
                  @ quoted (content p)
                  @ js ''. The task will not be deleted from Google Tasks.'')],
                w1)))"

fun forEach_tasks ::
  "'w tasks_services \<Rightarrow> jsstring \<Rightarrow> jsstring \<Rightarrow> gtask list \<Rightarrow> 'w \<Rightarrow> sync_event list \<times> 'w"
where
  "forEach_tasks svc taskListId apiToken [] w = ([], w)"
| "forEach_tasks svc taskListId apiToken (task # rest) w =
     (case processTask svc taskListId apiToken task w of
        (ev, w1) \<Rightarrow>
          (case forEach_tasks svc taskListId apiToken rest w1 of
             (evs, w2) \<Rightarrow> (ev @ evs, w2)))"

subsection \<open>\<open>getTaskListIdByName_\<close>\<close>

definition getTaskListIdByName ::
  "'w tasks_services \<Rightarrow> jsstring \<Rightarrow> 'w \<Rightarrow> sync_event list \<times> jsstring option \<times> 'w"
where
  "getTaskListIdByName svc listName w =
     (case Tasklists_list svc w of
        (Inr None, w') \<Rightarrow>
          ([CallTasklistsList, ConsoleLog (js ''No task lists found for this user.'')],
           None, w')
      | (Inr (Some items), w') \<Rightarrow>
          ([CallTasklistsList],
           (case find (\<lambda>l. tasklist_title l = listName) items of
              None \<Rightarrow> None
            | Some foundList \<Rightarrow> Some (tasklist_id foundList)),
           w')
      | (Inl e, w') \<Rightarrow>
          ([CallTasklistsList,
            ConsoleError (js ''Error fetching Google Task lists: '' @ toString e)],
           None, w'))"

subsection \<open>\<open>syncGoogleTasksToTodoist\<close>\<close>

text \<open>
  The two script properties are parameters (\<open>getProperty\<close> gives \<open>null\<close> for a
  property that is not set). An error thrown by \<open>Tasks.Tasks.list\<close> reaches the outer
  \<open>catch\<close>.
\<close>

definition syncGoogleTasksToTodoist ::
  "'w tasks_services \<Rightarrow> jsstring option \<Rightarrow> jsstring option \<Rightarrow> 'w \<Rightarrow> sync_event list \<times> 'w"
where
  "syncGoogleTasksToTodoist svc TODOIST_API_TOKEN GOOGLE_TASK_LIST_NAME w =
     (if \<not> truthy TODOIST_API_TOKEN \<or> \<not> truthy GOOGLE_TASK_LIST_NAME then
        ([ConsoleError (js ''Script configuration is incomplete. Please set TODOIST_API_TOKEN and GOOGLE_TASK_LIST_NAME in the Script Properties.'')], w)
      else
        (let apiToken = (case TODOIST_API_TOKEN of Some t \<Rightarrow> t | None \<Rightarrow> []);
             listName = (case GOOGLE_TASK_LIST_NAME of Some n \<Rightarrow> n | None \<Rightarrow> [])
         in
         case getTaskListIdByName svc listName w of
           (ev0, taskListId, w1) \<Rightarrow>
             if \<not> truthy taskListId then
               (ev0 @ [ConsoleError (js ''Could not find a Google Tasks list named ''
                   @ quoted listName
                   @ js ''. Please check the name in your Script Properties. Aborting sync.'')],
                w1)
             else
               (let lid = (case taskListId of Some i \<Rightarrow> i | None \<Rightarrow> []);
                    found = ConsoleLog (js ''Found task list '' @ quoted listName
                              @ js '' with ID: '' @ lid)
                in
                case Tasks_list svc lid w1 of
                  (Inr items, w2) \<Rightarrow>
                    (case items of
                       None \<Rightarrow>
                         (ev0 @ [found, CallTasksList lid, ConsoleLog (js ''No tasks to sync.'')], w2)
                     | Some ts \<Rightarrow>
                         if ts = [] then
                           (ev0 @ [found, CallTasksList lid, ConsoleLog (js ''No tasks to sync.'')], w2)
                         else
                           (case forEach_tasks svc lid apiToken ts w2 of
                              (evs, w3) \<Rightarrow>
                                (ev0 @ [found, CallTasksList lid,
                                   ConsoleLog (js ''Found '' @ Number_toString (int (length ts))
                                     @ js '' task(s) to sync.'')] @ evs,
                                 w3)))
                | (Inl err, w2) \<Rightarrow>
                    (ev0 @ [found, CallTasksList lid,
                       ConsoleError (js ''An error occurred during the sync process: ''
                         @ toString err)],
                     w2))))"

section \<open>Report pipeline: Todoist to a PDF in Drive\<close>

subsection \<open>Data\<close>

text \<open>
  A Todoist project \<open>{id, name}\<close> and a Todoist task, of which the script reads
  \<open>project_id\<close>, \<open>content\<close> and \<open>due\<close>. \<open>task.due\<close> is null or an object, of which only
  \<open>due.string\<close> is read: \<open>todo_due\<close> is \<open>None\<close> for null and \<open>Some\<close> of that string
  otherwise. A row of the grouping result is \<open>{content, due}\<close>.
\<close>

record project =
  project_id :: jsstring
  project_name :: jsstring

record todoist_task =
  todo_project_id :: jsstring
  todo_content :: jsstring
  todo_due :: "jsstring option"

record row =
  row_content :: jsstring
  row_due :: jsstring

subsection \<open>Plain objects used as dictionaries\<close>

text \<open>
  \<open>projectMap\<close> and \<open>tasksByProject\<close> are created by \<open>{}\<close>. The list holds the own
  properties in the order of their creation. Reading a key that is not an own
  property continues in \<open>Object.prototype\<close>, whose properties are functions, apart
  from the accessor \<open>__proto__\<close>, which reads as \<open>Object.prototype\<close> itself. All of
  them are truthy and none has a \<open>push\<close> method.
\<close>

type_synonym 'v js_object = "(jsstring \<times> 'v) list"

text \<open>
  Enumeration (\<open>Object.keys\<close>, \<open>for ... in\<close>) does not follow the order of creation
  alone: the keys that are array indices, the canonical decimal numerals below
  \<open>2^32 - 1\<close>, come first, in ascending numeric order, and the other keys follow in
  the order of their creation.
\<close>

definition is_array_index :: "jsstring \<Rightarrow> bool" where
  "is_array_index k \<longleftrightarrow> k = nat_digits (decimal_value k) \<and> decimal_value k < 4294967295"

definition for_in :: "'v js_object \<Rightarrow> (jsstring \<times> 'v) list" where
  "for_in obj =
     sort_key (\<lambda>p. decimal_value (fst p)) (filter (\<lambda>p. is_array_index (fst p)) obj)
     @ filter (\<lambda>p. \<not> is_array_index (fst p)) obj"

definition Object_keys :: "'v js_object \<Rightarrow> jsstring list" where
  "Object_keys obj = map fst (for_in obj)"

definition Object_prototype_keys :: "jsstring list" where
  "Object_prototype_keys =
     [js ''constructor'', js ''__defineGetter__'', js ''__defineSetter__'',
      js ''hasOwnProperty'', js ''__lookupGetter__'', js ''__lookupSetter__'',
      js ''isPrototypeOf'', js ''propertyIsEnumerable'', js ''toString'',
      js ''valueOf'', js ''__proto__'', js ''toLocaleString'']"

datatype 'v js_get = Own 'v | Inherited | Undefined

definition get_prop :: "'v js_object \<Rightarrow> jsstring \<Rightarrow> 'v js_get" where
  "get_prop obj k =
     (case map_of obj k of
        Some v \<Rightarrow> Own v
      | None \<Rightarrow> if k \<in> set Object_prototype_keys then Inherited else Undefined)"

text \<open>
  \<open>obj[k] = v\<close> for a string \<open>v\<close>: an own property is overwritten in place or added
  last; the setter of \<open>__proto__\<close> ignores a value that is not an object.
\<close>

definition set_prop :: "jsstring js_object \<Rightarrow> jsstring \<Rightarrow> jsstring \<Rightarrow> jsstring js_object" where
  "set_prop obj k v = (if k = js ''__proto__'' then obj else AList.update k v obj)"

text \<open>
  An inherited value used as a property key is converted to a string: the source text
  of a built-in function, or \<open>[object Object]\<close> for \<open>Object.prototype\<close>.
\<close>

definition inherited_as_key :: "jsstring \<Rightarrow> jsstring" where
  "inherited_as_key k =
     (if k = js ''__proto__'' then js ''[object Object]''
      else js ''function '' @ (if k = js ''constructor'' then js ''Object'' else k)
             @ js ''() { [native code] }'')"

subsection \<open>Grouping in \<open>getUncompletedTasksByProject\<close>\<close>

definition projectMap_of :: "project list \<Rightarrow> jsstring js_object" where
  "projectMap_of projects =
     foldl (\<lambda>projectMap p. set_prop projectMap (project_id p) (project_name p)) [] projects"

text \<open>\<open>projectMap[task.project_id] || 'Inbox'\<close>, as the key it is then used as.\<close>

definition projectName_of :: "jsstring js_object \<Rightarrow> todoist_task \<Rightarrow> jsstring" where
  "projectName_of projectMap task =
     (case get_prop projectMap (todo_project_id task) of
        Own n \<Rightarrow> if n = [] then js ''Inbox'' else n
      | Inherited \<Rightarrow> inherited_as_key (todo_project_id task)
      | Undefined \<Rightarrow> js ''Inbox'')"

definition row_of :: "todoist_task \<Rightarrow> row" where
  "row_of task =
     \<lparr> row_content = todo_content task,
       row_due = (case todo_due task of Some s \<Rightarrow> s | None \<Rightarrow> js ''No due date'') \<rparr>"

text \<open>
  The TypeError of a call of \<open>push\<close> on a value that has none; \<open>stack\<close> is the stack
  trace that the engine records in it.
\<close>

definition push_TypeError :: "jsstring \<Rightarrow> js_error" where
  "push_TypeError stack =
     JsError (js ''TypeError'') (js ''tasksByProject[projectName].push is not a function'') stack"

text \<open>
  \<open>tasks.forEach\<close> over the accumulator \<open>tasksByProject\<close>. When the key is no own
  property but is found in \<open>Object.prototype\<close>, \<open>!tasksByProject[projectName]\<close> is
  false, no array is created, and the call of \<open>push\<close> throws.
\<close>

fun group_tasks ::
  "jsstring \<Rightarrow> jsstring js_object \<Rightarrow> todoist_task list \<Rightarrow> row list js_object
     \<Rightarrow> js_error + row list js_object"
where
  "group_tasks stack projectMap [] tasksByProject = Inr tasksByProject"
| "group_tasks stack projectMap (task # rest) tasksByProject =
     (let projectName = projectName_of projectMap task in
      case get_prop tasksByProject projectName of
        Own rows \<Rightarrow>
          group_tasks stack projectMap rest
            (AList.update projectName (rows @ [row_of task]) tasksByProject)
      | Inherited \<Rightarrow> Inl (push_TypeError stack)
      | Undefined \<Rightarrow>
          group_tasks stack projectMap rest
            (AList.update projectName ([] @ [row_of task]) tasksByProject))"

subsection \<open>Dates and names\<close>

text \<open>
  The local calendar fields of a \<open>Date\<close>: \<open>getMonth\<close> counts from 0, \<open>getDate\<close> from 1.
  \<open>yesterday_of\<close> is \<open>d.setDate(d.getDate() - 1)\<close>: the day before in the same month,
  or \<open>setDate(0)\<close>, the last day of the month before.
\<close>

record jsdate =
  getFullYear :: int
  getMonth :: nat
  getDate :: nat

definition days_in_month :: "int \<Rightarrow> nat \<Rightarrow> nat" where
  "days_in_month y m =
     (if m = 1 then (if y mod 4 = 0 \<and> (y mod 100 \<noteq> 0 \<or> y mod 400 = 0) then 29 else 28)
      else if m \<in> set [3, 5, 8, 10] then 30 else 31)"

definition yesterday_of :: "jsdate \<Rightarrow> jsdate" where
  "yesterday_of d =
     (if 1 < getDate d then d \<lparr> getDate := getDate d - 1 \<rparr>
      else if getMonth d = 0 then
        \<lparr> getFullYear = getFullYear d - 1, getMonth = 11, getDate = 31 \<rparr>
      else
        \<lparr> getFullYear = getFullYear d, getMonth = getMonth d - 1,
          getDate = days_in_month (getFullYear d) (getMonth d - 1) \<rparr>)"

text \<open>\<open>fileName\<close> in \<open>deleteYesterdaysReport\<close>, from the value of \<open>new Date()\<close>.\<close>

definition fileName_of :: "jsdate \<Rightarrow> jsstring" where
  "fileName_of now =
     (let yesterday = yesterday_of now;
          formattedDate = Number_toString (int (getMonth yesterday) + 1) @ js ''-''
            @ Number_toString (int (getDate yesterday)) @ js ''-''
            @ Number_toString (getFullYear yesterday)
      in js ''Todoist Report - '' @ formattedDate @ js ''.pdf'')"

text \<open>\<open>sheetName\<close> in \<open>createAndPopulateSheet\<close>, from the value of \<open>new Date()\<close>.\<close>

definition sheetName_of :: "jsdate \<Rightarrow> jsstring" where
  "sheetName_of date =
     (let formattedDate = Number_toString (int (getMonth date) + 1) @ js ''-''
            @ Number_toString (int (getDate date)) @ js ''-''
            @ Number_toString (getFullYear date)
      in js ''Todoist Report - '' @ formattedDate)"

subsection \<open>External services\<close>

text \<open>
  \<open>clock\<close> is \<open>new Date()\<close>; \<open>error_stack\<close> is the stack trace that the engine
  records in an error thrown by the script's own code. \<open>getFolderById\<close> gives the folder's name,
  \<open>getFilesByName\<close> the ids of the files of that name in the folder, in the iterator's
  order. \<open>fetch_projects\<close> and \<open>fetch_tasks\<close> are \<open>UrlFetchApp.fetch\<close> of the two
  Todoist URLs followed by \<open>JSON.parse\<close>; a response that is an error status or no
  JSON array is among the throwing outcomes. \<open>Spreadsheet_create\<close> gives the new
  spreadsheet's id; \<open>Spreadsheet_populate\<close> stands for all calls that fill and format
  the sheet, up to \<open>flush\<close>, and is given the project sections in the order of the
  \<open>for ... in\<close> loop; \<open>createFile\<close> for the conversion to a PDF blob of the given
  name and its storing in the folder, and gives the stored file's name.
\<close>

record 'w report_services =
  clock :: "'w \<Rightarrow> jsdate"
  error_stack :: "'w \<Rightarrow> jsstring"
  getFolderById :: "jsstring \<Rightarrow> 'w \<Rightarrow> (js_error + jsstring) \<times> 'w"
  getFilesByName :: "jsstring \<Rightarrow> jsstring \<Rightarrow> 'w \<Rightarrow> (js_error + jsstring list) \<times> 'w"
  setTrashed :: "jsstring \<Rightarrow> 'w \<Rightarrow> js_error option \<times> 'w"
  fetch_projects :: "jsstring \<Rightarrow> 'w \<Rightarrow> (js_error + project list) \<times> 'w"
  fetch_tasks :: "jsstring \<Rightarrow> 'w \<Rightarrow> (js_error + todoist_task list) \<times> 'w"
  Spreadsheet_create :: "jsstring \<Rightarrow> 'w \<Rightarrow> (js_error + jsstring) \<times> 'w"
  Spreadsheet_populate :: "jsstring \<Rightarrow> row list js_object \<Rightarrow> 'w \<Rightarrow> js_error option \<times> 'w"
  createFile :: "jsstring \<Rightarrow> jsstring \<Rightarrow> jsstring \<Rightarrow> 'w \<Rightarrow> (js_error + jsstring) \<times> 'w"

datatype report_event =
    LoggerLog jsstring
  | CallGetFolderById jsstring
  | CallGetFilesByName jsstring jsstring
  | CallSetTrashed jsstring
  | CallFetchProjects jsstring
  | CallFetchTasks jsstring
  | CallSpreadsheetCreate jsstring
  | CallSpreadsheetPopulate jsstring "row list js_object"
  | CallCreateFile jsstring jsstring jsstring

record spreadsheet =
  getId :: jsstring
  getName :: jsstring

subsection \<open>\<open>deleteYesterdaysReport\<close>\<close>

definition cleanup_failed :: "js_error \<Rightarrow> report_event" where
  "cleanup_failed e =
     LoggerLog (js ''Could not clean up yesterday's report. Error: '' @ toString e)"

definition deleteYesterdaysReport ::
  "'w report_services \<Rightarrow> jsstring \<Rightarrow> 'w \<Rightarrow> report_event list \<times> 'w"
where
  "deleteYesterdaysReport svc folderId w =
     (let fileName = fileName_of (clock svc w) in
      case getFolderById svc folderId w of
        (Inl e, w1) \<Rightarrow> ([CallGetFolderById folderId, cleanup_failed e], w1)
      | (Inr folder, w1) \<Rightarrow>
          (case getFilesByName svc folderId fileName w1 of
             (Inl e, w2) \<Rightarrow>
               ([CallGetFolderById folderId, CallGetFilesByName folderId fileName,
                 cleanup_failed e], w2)
           | (Inr [], w2) \<Rightarrow>
               ([CallGetFolderById folderId, CallGetFilesByName folderId fileName,
                 LoggerLog (js ''No report from yesterday to clean up.'')], w2)
           | (Inr (file # others), w2) \<Rightarrow>
               (case setTrashed svc file w2 of
                  (None, w3) \<Rightarrow>
                    ([CallGetFolderById folderId, CallGetFilesByName folderId fileName,
                      CallSetTrashed file,
                      LoggerLog (js ''Cleaned up yesterday's report: '' @ fileName)], w3)
                | (Some e, w3) \<Rightarrow>
                    ([CallGetFolderById folderId, CallGetFilesByName folderId fileName,
                      CallSetTrashed file, cleanup_failed e], w3))))"

subsection \<open>\<open>getUncompletedTasksByProject\<close>\<close>

definition getUncompletedTasksByProject ::
  "'w report_services \<Rightarrow> jsstring \<Rightarrow> 'w \<Rightarrow> report_event list \<times> (js_error + row list js_object) \<times> 'w"
where
  "getUncompletedTasksByProject svc apiToken w =
     (let auth = js ''Bearer '' @ apiToken;
          ev1 = [LoggerLog (js ''Fetching projects from Todoist...''), CallFetchProjects auth]
      in
      case fetch_projects svc auth w of
        (Inl e, w1) \<Rightarrow> (ev1, Inl e, w1)
      | (Inr projects, w1) \<Rightarrow>
          (let projectMap = projectMap_of projects;
               ev2 = ev1 @ [LoggerLog (js ''Fetching uncompleted tasks from Todoist...''),
                            CallFetchTasks auth]
           in
           case fetch_tasks svc auth w1 of
             (Inl e, w2) \<Rightarrow> (ev2, Inl e, w2)
           | (Inr tasks, w2) \<Rightarrow>
               (ev2 @ [LoggerLog (js ''Found '' @ Number_toString (int (length tasks))
                         @ js '' uncompleted tasks.'')],
                group_tasks (error_stack svc w2) projectMap tasks [], w2)))"

subsection \<open>\<open>createAndPopulateSheet\<close> and \<open>exportSheetAsPdf\<close>\<close>

text \<open>The spreadsheet returned by \<open>SpreadsheetApp.create(sheetName)\<close> bears that name.\<close>

definition createAndPopulateSheet ::
  "'w report_services \<Rightarrow> row list js_object \<Rightarrow> 'w \<Rightarrow> report_event list \<times> (js_error + spreadsheet) \<times> 'w"
where
  "createAndPopulateSheet svc tasksByProject w =
     (let sheetName = sheetName_of (clock svc w);
          ev1 = [LoggerLog (js ''Creating new spreadsheet: '' @ quoted sheetName),
                 CallSpreadsheetCreate sheetName]
      in
      case Spreadsheet_create svc sheetName w of
        (Inl e, w1) \<Rightarrow> (ev1, Inl e, w1)
      | (Inr ssId, w1) \<Rightarrow>
          (case Spreadsheet_populate svc ssId (for_in tasksByProject) w1 of
             (Some e, w2) \<Rightarrow>
               (ev1 @ [CallSpreadsheetPopulate ssId (for_in tasksByProject)], Inl e, w2)
           | (None, w2) \<Rightarrow>
               (ev1 @ [CallSpreadsheetPopulate ssId (for_in tasksByProject),
                       LoggerLog (js ''Spreadsheet has been populated and formatted.'')],
                Inr \<lparr> getId = ssId, getName = sheetName \<rparr>, w2)))"

text \<open>The \<open>catch\<close> block: one more log line for a missing folder, then the error again.\<close>

definition export_catch :: "jsstring \<Rightarrow> js_error \<Rightarrow> report_event list" where
  "export_catch folderId e =
     (if sublist (js ''Folder not found'') (err_message e) then
        [LoggerLog (js ''Error: The Google Drive Folder with ID '' @ quoted folderId
           @ js '' was not found. Please check the ID and your permissions.'')]
      else [])"

definition exportSheetAsPdf ::
  "'w report_services \<Rightarrow> spreadsheet \<Rightarrow> jsstring \<Rightarrow> 'w \<Rightarrow> report_event list \<times> js_error option \<times> 'w"
where
  "exportSheetAsPdf svc ss folderId w =
     (let ev1 = [LoggerLog (js ''Exporting spreadsheet to PDF...''), CallGetFolderById folderId]
      in
      case getFolderById svc folderId w of
        (Inl e, w1) \<Rightarrow> (ev1 @ export_catch folderId e, Some e, w1)
      | (Inr folderName, w1) \<Rightarrow>
          (let pdfName = getName ss @ js ''.pdf'';
               ev2 = ev1 @ [CallCreateFile folderId (getId ss) pdfName]
           in
           case createFile svc folderId (getId ss) pdfName w1 of
             (Inl e, w2) \<Rightarrow> (ev2 @ export_catch folderId e, Some e, w2)
           | (Inr storedName, w2) \<Rightarrow>
               (ev2 @ [LoggerLog (js ''PDF file created: '' @ storedName @ js '' in folder ''
                         @ quoted folderName)],
                None, w2)))"

subsection \<open>\<open>createTodoistReport\<close>\<close>

definition report_catch :: "js_error \<Rightarrow> report_event list" where
  "report_catch error =
     [LoggerLog (js ''An error occurred: '' @ toString error),
      LoggerLog (js ''Stack: '' @ err_stack error)]"

definition createTodoistReport ::
  "'w report_services \<Rightarrow> jsstring option \<Rightarrow> jsstring option \<Rightarrow> 'w \<Rightarrow> report_event list \<times> 'w"
where
  "createTodoistReport svc TODOIST_API_TOKEN GOOGLE_DRIVE_FOLDER_ID w =
     (if \<not> truthy TODOIST_API_TOKEN \<or> \<not> truthy GOOGLE_DRIVE_FOLDER_ID then
        ([LoggerLog (js ''Please set the 'TODOIST_API_TOKEN' and 'GOOGLE_DRIVE_FOLDER_ID' script properties.'')], w)
      else
        (let apiToken = (case TODOIST_API_TOKEN of Some t \<Rightarrow> t | None \<Rightarrow> []);
             folderId = (case GOOGLE_DRIVE_FOLDER_ID of Some f \<Rightarrow> f | None \<Rightarrow> []);
             start = [LoggerLog (js ''Starting Todoist report generation...'')]
         in
         case deleteYesterdaysReport svc folderId w of
           (ev1, w1) \<Rightarrow>
             (case getUncompletedTasksByProject svc apiToken w1 of
                (ev2, Inl e, w2) \<Rightarrow> (start @ ev1 @ ev2 @ report_catch e, w2)
              | (ev2, Inr tasksByProject, w2) \<Rightarrow>
                  if length (Object_keys tasksByProject) = 0 then
                    (start @ ev1 @ ev2
                       @ [LoggerLog (js ''No uncompleted tasks found. Aborting.'')], w2)
                  else
                    (case createAndPopulateSheet svc tasksByProject w2 of
                       (ev3, Inl e, w3) \<Rightarrow> (start @ ev1 @ ev2 @ ev3 @ report_catch e, w3)
                     | (ev3, Inr ss, w3) \<Rightarrow>
                         (case exportSheetAsPdf svc ss folderId w3 of
                            (ev4, Some e, w4) \<Rightarrow>
                              (start @ ev1 @ ev2 @ ev3 @ ev4 @ report_catch e, w4)
                          | (ev4, None, w4) \<Rightarrow>
                              (case setTrashed svc (getId ss) w4 of
                                 (Some e, w5) \<Rightarrow>
                                   (start @ ev1 @ ev2 @ ev3 @ ev4
                                      @ [CallSetTrashed (getId ss)] @ report_catch e, w5)
                               | (None, w5) \<Rightarrow>
                                   (start @ ev1 @ ev2 @ ev3 @ ev4
                                      @ [CallSetTrashed (getId ss),
                                         LoggerLog (js ''Successfully created Todoist report PDF. Check your specified Google Drive folder.'')],
                                    w5)))))))"

text \<open>
  The steps of the \<open>try\<close> block after the cleanup, with the \<open>catch\<close>, stated on
  their own: what a run does from the world that the cleanup left.
\<close>

definition report_after_cleanup ::
  "'w report_services \<Rightarrow> jsstring \<Rightarrow> jsstring \<Rightarrow> 'w \<Rightarrow> report_event list \<times> 'w"
where
  "report_after_cleanup svc apiToken folderId w1 =
     (case getUncompletedTasksByProject svc apiToken w1 of
        (ev2, Inl e, w2) \<Rightarrow> (ev2 @ report_catch e, w2)
      | (ev2, Inr tasksByProject, w2) \<Rightarrow>
          if length (Object_keys tasksByProject) = 0 then
            (ev2 @ [LoggerLog (js ''No uncompleted tasks found. Aborting.'')], w2)
          else
            (case createAndPopulateSheet svc tasksByProject w2 of
               (ev3, Inl e, w3) \<Rightarrow> (ev2 @ ev3 @ report_catch e, w3)
             | (ev3, Inr ss, w3) \<Rightarrow>
                 (case exportSheetAsPdf svc ss folderId w3 of
                    (ev4, Some e, w4) \<Rightarrow> (ev2 @ ev3 @ ev4 @ report_catch e, w4)
                  | (ev4, None, w4) \<Rightarrow>
                      (case setTrashed svc (getId ss) w4 of
                         (Some e, w5) \<Rightarrow>
                           (ev2 @ ev3 @ ev4 @ [CallSetTrashed (getId ss)] @ report_catch e, w5)
                       | (None, w5) \<Rightarrow>
                           (ev2 @ ev3 @ ev4
                              @ [CallSetTrashed (getId ss),
                                 LoggerLog (js ''Successfully created Todoist report PDF. Check your specified Google Drive folder.'')],
                            w5)))))"

section \<open>Reading a run\<close>

subsection \<open>Sync pipeline\<close>

text \<open>
  The payloads of the creation calls and the task ids of the deletion calls that a
  run issued, in order.
\<close>

fun created :: "sync_event \<Rightarrow> payload list" where
  "created (CallFetchPost url auth p) = [p]"
| "created e = []"

fun removed :: "sync_event \<Rightarrow> (jsstring \<times> jsstring) list" where
  "removed (CallTasksRemove l i) = [(l, i)]"
| "removed e = []"

definition creation_calls :: "sync_event list \<Rightarrow> payload list" where
  "creation_calls evs = concat (map created evs)"

definition deletion_calls :: "sync_event list \<Rightarrow> (jsstring \<times> jsstring) list" where
  "deletion_calls evs = concat (map removed evs)"

text \<open>
  The destination reports success for a task in world \<open>w\<close>: the task has a title and
  the creation call for its payload returns a response with status 200.
\<close>

definition creation_succeeds :: "'w tasks_services \<Rightarrow> jsstring \<Rightarrow> gtask \<Rightarrow> 'w \<Rightarrow> bool" where
  "creation_succeeds svc apiToken task w =
     (case todoistPayload task of
        None \<Rightarrow> False
      | Some p \<Rightarrow>
          (case fetch_post svc TODOIST_API_URL (js ''Bearer '' @ apiToken) p w of
             (Inr response, w') \<Rightarrow> getResponseCode response = 200
           | (Inl e, w') \<Rightarrow> False))"

subsection \<open>Report pipeline\<close>

text \<open>The names of the spreadsheets and files that a run created, in order.\<close>

fun created_document :: "report_event \<Rightarrow> jsstring list" where
  "created_document (CallSpreadsheetCreate n) = [n]"
| "created_document (CallCreateFile folderId ssId n) = [n]"
| "created_document e = []"

definition documents_created :: "report_event list \<Rightarrow> jsstring list" where
  "documents_created evs = concat (map created_document evs)"

text \<open>The rows of the tasks that are given the key \<open>k\<close>, in the order of the tasks.\<close>

definition rows_for :: "jsstring js_object \<Rightarrow> todoist_task list \<Rightarrow> jsstring \<Rightarrow> row list" where
  "rows_for projectMap tasks k =
     map row_of (filter (\<lambda>t. projectName_of projectMap t = k) tasks)"

section \<open>Simulated services and sample data\<close>

text \<open>
  A small world for the sync pipeline: the source list and the tasks created at the
  destination. Creation answers with the status that \<open>status\<close> gives for the payload
  and stores the task on 200; removal fails unless \<open>removable\<close> holds for the id.
\<close>

record sim_world =
  source_tasks :: "gtask list"
  destination :: "payload list"

definition sim_error :: js_error where
  "sim_error = JsError (js ''Error'') (js ''unavailable'') []"

definition sim_tasks_services ::
  "(payload \<Rightarrow> int) \<Rightarrow> (jsstring \<Rightarrow> bool) \<Rightarrow> sim_world tasks_services"
where
  "sim_tasks_services status removable =
     \<lparr> Tasklists_list = (\<lambda>w.
         (Inr (Some [\<lparr> tasklist_id = js ''L1'', tasklist_title = js ''My Tasks'' \<rparr>]), w)),
       Tasks_list = (\<lambda>lid w. (Inr (Some (source_tasks w)), w)),
       Tasks_remove = (\<lambda>lid tid w.
         if removable tid then
           (None, w \<lparr> source_tasks := filter (\<lambda>t. task_id t \<noteq> tid) (source_tasks w) \<rparr>)
         else (Some sim_error, w)),
       fetch_post = (\<lambda>url auth p w.
         if status p = 200 then
           (Inr \<lparr> getResponseCode = 200, getContentText = js ''ok'' \<rparr>,
            w \<lparr> destination := destination w @ [p] \<rparr>)
         else (Inr \<lparr> getResponseCode = status p, getContentText = js ''no'' \<rparr>, w)) \<rparr>"

definition sim_task :: "string \<Rightarrow> string \<Rightarrow> gtask" where
  "sim_task i t =
     \<lparr> task_id = js i, title = (if t = [] then None else Some (js t)), task_notes = None,
       links = None, due = None \<rparr>"

text \<open>The destination rejects the task titled \<open>b\<close> with status 500.\<close>

definition sim_status :: "payload \<Rightarrow> int" where
  "sim_status p = (if content p = js ''b'' then 500 else 200)"

definition sim_three :: "gtask list" where
  "sim_three = [sim_task ''1'' ''a'', sim_task ''2'' ''b'', sim_task ''3'' ''c'']"

definition sim_services :: "sim_world tasks_services" where
  "sim_services = sim_tasks_services sim_status (\<lambda>i. True)"

definition sim_start :: sim_world where
  "sim_start = \<lparr> source_tasks = sim_three, destination = [] \<rparr>"


text \<open>Sample tasks of the source list.\<close>

definition call_bob :: gtask where
  "call_bob =
     \<lparr> task_id = js ''7'', title = Some (js ''Call Bob''), task_notes = Some (js ''re: contract''),
       links = Some [\<lparr> type = js ''email'', link = js ''https://mail.example/x'' \<rparr>],
       due = Some (js ''2024-05-01T00:00:00Z'') \<rparr>"

definition call_bob_payload :: payload where
  "call_bob_payload =
     \<lparr> content = js ''Call Bob'',
       description = js ''re: contract\<newline>\<newline>---\<newline>Linked Email: https://mail.example/x'',
       due_date = Some (js ''2024-05-01'') \<rparr>"

definition blank_notes_task :: gtask where
  "blank_notes_task =
     \<lparr> task_id = js ''1'', title = Some (js ''t''), task_notes = Some (js '' ''),
       links = Some [\<lparr> type = js ''email'', link = js ''u'' \<rparr>], due = None \<rparr>"

definition empty_url_task :: gtask where
  "empty_url_task =
     \<lparr> task_id = js ''1'', title = Some (js ''t''), task_notes = None,
       links = Some [\<lparr> type = js ''email'', link = [] \<rparr>], due = None \<rparr>"

text \<open>
  A small world for the report pipeline: the date, the names of the files in the
  folder (a file's name serves as its id), the error that \<open>setTrashed\<close> throws on a
  file of the folder, if any, and what Todoist holds.
\<close>

record sim_drive =
  sim_today :: jsdate
  sim_files :: "jsstring list"
  sim_trash :: "js_error option"
  sim_projects :: "project list"
  sim_tasks :: "todoist_task list"

definition sim_report_services :: "sim_drive report_services" where
  "sim_report_services =
     \<lparr> clock = sim_today,
       error_stack = (\<lambda>w. js ''at getUncompletedTasksByProject''),
       getFolderById = (\<lambda>folderId w. (Inr (js ''Reports''), w)),
       getFilesByName = (\<lambda>folderId n w. (Inr (filter (\<lambda>f. f = n) (sim_files w)), w)),
       setTrashed = (\<lambda>file w.
         case sim_trash w of
           None \<Rightarrow> (None, w \<lparr> sim_files := filter (\<lambda>f. f \<noteq> file) (sim_files w) \<rparr>)
         | Some e \<Rightarrow> if file \<in> set (sim_files w) then (Some e, w) else (None, w)),
       fetch_projects = (\<lambda>auth w. (Inr (sim_projects w), w)),
       fetch_tasks = (\<lambda>auth w. (Inr (sim_tasks w), w)),
       Spreadsheet_create = (\<lambda>n w. (Inr (js ''sheet''), w)),
       Spreadsheet_populate = (\<lambda>ssId groups w. (None, w)),
       createFile = (\<lambda>folderId ssId n w. (Inr n, w \<lparr> sim_files := sim_files w @ [n] \<rparr>)) \<rparr>"

definition march_6 :: jsdate where
  "march_6 = \<lparr> getFullYear = 2024, getMonth = 2, getDate = 6 \<rparr>"

definition constructor_projects :: "project list" where
  "constructor_projects = [\<lparr> project_id = js ''1'', project_name = js ''constructor'' \<rparr>]"

definition constructor_tasks :: "todoist_task list" where
  "constructor_tasks = [\<lparr> todo_project_id = js ''1'', todo_content = js ''x'', todo_due = None \<rparr>]"

definition errands_projects :: "project list" where
  "errands_projects = [\<lparr> project_id = js ''p1'', project_name = js ''Errands'' \<rparr>]"

definition buy_milk :: todoist_task where
  "buy_milk = \<lparr> todo_project_id = js ''p1'', todo_content = js ''Buy milk'', todo_due = None \<rparr>"

definition stray_task :: todoist_task where
  "stray_task = \<lparr> todo_project_id = js ''p2'', todo_content = [], todo_due = Some (js ''today'') \<rparr>"

text \<open>A task whose project id names a property of \<open>Object.prototype\<close>.\<close>

definition prototype_id_task :: todoist_task where
  "prototype_id_task =
     \<lparr> todo_project_id = js ''constructor'', todo_content = js ''y'', todo_due = None \<rparr>"

text \<open>Yesterday's report is in the folder and cannot be trashed.\<close>

definition sim_drive_start :: sim_drive where
  "sim_drive_start =
     \<lparr> sim_today = march_6, sim_files = [js ''Todoist Report - 3-5-2024.pdf''],
       sim_trash = Some sim_error, sim_projects = constructor_projects,
       sim_tasks = constructor_tasks \<rparr>"

text \<open>The same, with one project and one task to report.\<close>

definition sim_drive_stuck :: sim_drive where
  "sim_drive_stuck =
     sim_drive_start \<lparr> sim_projects := errands_projects, sim_tasks := [buy_milk] \<rparr>"

text \<open>An empty folder and no uncompleted task.\<close>

definition sim_drive_idle :: sim_drive where
  "sim_drive_idle =
     \<lparr> sim_today = march_6, sim_files = [], sim_trash = None,
       sim_projects = errands_projects, sim_tasks = [] \<rparr>"

section \<open>Auxiliary facts\<close>

lemmas sim_defs = sim_services_def sim_tasks_services_def sim_status_def sim_task_def
  sim_start_def sim_three_def sim_error_def

lemmas sync_defs = processTask_def createTodoistTask_def todoistPayload_def description_of_def
  emailLink_def trim_def substring_def creation_succeeds_def Let_def js_def quoted_def

lemmas run_defs = syncGoogleTasksToTodoist_def getTaskListIdByName_def truthy_def

lemmas report_defs = createTodoistReport_def deleteYesterdaysReport_def
  getUncompletedTasksByProject_def createAndPopulateSheet_def exportSheetAsPdf_def
  export_catch_def report_catch_def cleanup_failed_def truthy_def quoted_def toString_def

lemmas group_defs = projectMap_of_def set_prop_def projectName_of_def get_prop_def
  Object_prototype_keys_def row_of_def inherited_as_key_def

lemmas sim_drive_defs = sim_report_services_def sim_drive_start_def march_6_def sim_error_def
  constructor_projects_def constructor_tasks_def sim_drive_stuck_def errands_projects_def
  buy_milk_def

subsection \<open>Calls of a sync run\<close>

lemma creation_calls_simps [simp]:
  "creation_calls [] = []"
  "creation_calls (e # evs) = created e @ creation_calls evs"
  "creation_calls (xs @ ys) = creation_calls xs @ creation_calls ys"
  by (simp_all add: creation_calls_def)

lemma deletion_calls_simps [simp]:
  "deletion_calls [] = []"
  "deletion_calls (e # evs) = removed e @ deletion_calls evs"
  "deletion_calls (xs @ ys) = deletion_calls xs @ deletion_calls ys"
  by (simp_all add: deletion_calls_def)

lemma createTodoistTask_calls:
  "createTodoistTask svc p tok w = (ev, r, w') \<Longrightarrow>
     creation_calls ev = [p] \<and> deletion_calls ev = []"
  by (auto simp: createTodoistTask_def Let_def split: prod.splits sum.splits if_splits)

lemma createTodoistTask_result:
  "createTodoistTask svc p tok w = (ev, r, w') \<Longrightarrow>
     (r \<noteq> None) =
       (case fetch_post svc TODOIST_API_URL (js ''Bearer '' @ tok) p w of
          (Inr response, w') \<Rightarrow> getResponseCode response = 200
        | (Inl e, w') \<Rightarrow> False)"
  by (auto simp: createTodoistTask_def Let_def split: prod.splits sum.splits if_splits)

lemma processTask_creation_calls:
  "creation_calls (fst (processTask svc lid tok task w)) =
     (case todoistPayload task of None \<Rightarrow> [] | Some p \<Rightarrow> [p])"
  by (auto simp: processTask_def Let_def dest!: createTodoistTask_calls
      split: prod.splits option.splits)

lemma processTask_deletion_calls:
  "deletion_calls (fst (processTask svc lid tok task w)) =
     (if creation_succeeds svc tok task w then [(lid, task_id task)] else [])"
  by (auto simp: processTask_def creation_succeeds_def Let_def
      dest: createTodoistTask_calls createTodoistTask_result
      split: prod.splits option.splits)

lemma forEach_tasks_append:
  "forEach_tasks svc lid tok (xs @ ys) w =
     (case forEach_tasks svc lid tok xs w of
        (e1, w1) \<Rightarrow> (case forEach_tasks svc lid tok ys w1 of (e2, w2) \<Rightarrow> (e1 @ e2, w2)))"
  by (induction xs arbitrary: w) (auto split: prod.splits)

lemma forEach_tasks_creation_calls:
  "creation_calls (fst (forEach_tasks svc lid tok ts w)) = List.map_filter todoistPayload ts"
proof (induction ts arbitrary: w)
  case Nil
  show ?case by simp
next
  case (Cons t ts)
  have "creation_calls (fst (forEach_tasks svc lid tok (t # ts) w)) =
        creation_calls (fst (processTask svc lid tok t w)) @
        creation_calls (fst (forEach_tasks svc lid tok ts (snd (processTask svc lid tok t w))))"
    by (simp split: prod.splits)
  then show ?case
    by (simp add: processTask_creation_calls Cons.IH split: option.splits)
qed

lemma forEach_tasks_deletion_calls:
  "deletion_calls (fst (forEach_tasks svc lid tok (before @ task # rest) w)) =
     deletion_calls (fst (forEach_tasks svc lid tok before w))
     @ (if creation_succeeds svc tok task (snd (forEach_tasks svc lid tok before w))
        then [(lid, task_id task)] else [])
     @ deletion_calls (fst (forEach_tasks svc lid tok rest
         (snd (processTask svc lid tok task (snd (forEach_tasks svc lid tok before w))))))"
proof -
  obtain e1 w1 where a: "forEach_tasks svc lid tok before w = (e1, w1)"
    by (cases "forEach_tasks svc lid tok before w")
  obtain e2 w2 where b: "processTask svc lid tok task w1 = (e2, w2)"
    by (cases "processTask svc lid tok task w1")
  obtain e3 w3 where c: "forEach_tasks svc lid tok rest w2 = (e3, w3)"
    by (cases "forEach_tasks svc lid tok rest w2")
  have "deletion_calls e2 =
        (if creation_succeeds svc tok task w1 then [(lid, task_id task)] else [])"
    using processTask_deletion_calls [of svc lid tok task w1] b by simp
  then show ?thesis
    by (simp add: forEach_tasks_append a b c)
qed

lemma getTaskListIdByName_no_calls:
  "creation_calls (fst (getTaskListIdByName svc n w)) = []
   \<and> deletion_calls (fst (getTaskListIdByName svc n w)) = []"
  by (simp add: getTaskListIdByName_def split: prod.splits sum.splits option.splits)

lemma sync_runs_batch:
  assumes "apiToken \<noteq> []" and "listName \<noteq> []"
    and "getTaskListIdByName svc listName w = (ev0, Some lid, w1)"
    and "lid \<noteq> []"
    and "Tasks_list svc lid w1 = (Inr (Some ts), w2)"
  shows "creation_calls (fst (syncGoogleTasksToTodoist svc (Some apiToken) (Some listName) w))
           = creation_calls (fst (forEach_tasks svc lid apiToken ts w2))"
    and "deletion_calls (fst (syncGoogleTasksToTodoist svc (Some apiToken) (Some listName) w))
           = deletion_calls (fst (forEach_tasks svc lid apiToken ts w2))"
    and "snd (syncGoogleTasksToTodoist svc (Some apiToken) (Some listName) w)
           = snd (forEach_tasks svc lid apiToken ts w2)"
proof -
  have c: "creation_calls ev0 = []" "deletion_calls ev0 = []"
    using getTaskListIdByName_no_calls [of svc listName w] assms(3) by simp_all
  show "creation_calls (fst (syncGoogleTasksToTodoist svc (Some apiToken) (Some listName) w))
           = creation_calls (fst (forEach_tasks svc lid apiToken ts w2))"
    using assms c
    by (cases ts) (simp_all add: syncGoogleTasksToTodoist_def truthy_def Let_def split: prod.splits)
  show "deletion_calls (fst (syncGoogleTasksToTodoist svc (Some apiToken) (Some listName) w))
           = deletion_calls (fst (forEach_tasks svc lid apiToken ts w2))"
    using assms c
    by (cases ts) (simp_all add: syncGoogleTasksToTodoist_def truthy_def Let_def split: prod.splits)
  show "snd (syncGoogleTasksToTodoist svc (Some apiToken) (Some listName) w)
           = snd (forEach_tasks svc lid apiToken ts w2)"
    using assms
    by (cases ts) (simp_all add: syncGoogleTasksToTodoist_def truthy_def Let_def split: prod.splits)
qed

lemma todoistPayload_None: "\<not> truthy (title task) \<Longrightarrow> todoistPayload task = None"
  by (auto simp: truthy_def todoistPayload_def split: option.splits)

lemma todoistPayload_Some:
  "truthy (title task) \<Longrightarrow> \<exists>p. todoistPayload task = Some p \<and> title task = Some (content p)"
  by (auto simp: truthy_def todoistPayload_def split: option.splits)

lemma processTask_untitled:
  "todoistPayload task = None \<Longrightarrow> processTask svc lid tok task w = ([], w)"
  by (simp add: processTask_def)

lemma processTask_remove_fails:
  assumes "todoistPayload task = Some p"
    and "fetch_post svc TODOIST_API_URL (js ''Bearer '' @ tok) p v = (Inr response, v1)"
    and "getResponseCode response = 200"
    and "Tasks_remove svc lid (task_id task) v1 = (Some e, v2)"
  shows "ConsoleError (js ''Failed to delete task from Google Tasks (ID: '' @ task_id task
           @ js ''). Please delete it manually to avoid duplicates. Error: '' @ toString e)
         \<in> set (fst (processTask svc lid tok task v))"
    and "snd (processTask svc lid tok task v) = v2"
  using assms by (simp_all add: processTask_def createTodoistTask_def Let_def)

subsection \<open>Trimming and the email annotation\<close>

lemma find_first:
  "P l \<Longrightarrow> \<forall>x\<in>set before. \<not> P x \<Longrightarrow> find P (before @ l # rest) = Some l"
  by (induction before) auto

lemma trim_no_trailing:
  assumes "s \<noteq> []" and "\<not> is_js_whitespace (last s)"
  shows "trim s = dropWhile is_js_whitespace s"
proof -
  let ?d = "dropWhile is_js_whitespace s"
  have "last s \<in> set s" using assms(1) by simp
  then have ne: "?d \<noteq> []" using assms(2) by (auto simp: dropWhile_eq_Nil_conv)
  have "s = takeWhile is_js_whitespace s @ ?d" by simp
  then have "last s = last ?d" using ne by (metis last_appendR)
  then have "\<not> is_js_whitespace (hd (rev ?d))" using assms(2) ne by (simp add: hd_rev)
  then have "dropWhile is_js_whitespace (rev ?d) = rev ?d"
    by (simp add: dropWhile_eq_self_iff)
  then show ?thesis by (simp add: trim_def)
qed

lemma dropWhile_annotation:
  "dropWhile is_js_whitespace (js ''Linked Email: '' @ u) = js ''Linked Email: '' @ u"
  by (simp add: js_def is_js_whitespace_def)

lemma call_bob_payload: "todoistPayload call_bob = Some call_bob_payload"
  by (simp add: call_bob_def call_bob_payload_def sync_defs is_js_whitespace_def)

subsection \<open>Grouping\<close>

lemma get_prop_Own: "get_prop obj k = Own v \<longleftrightarrow> map_of obj k = Some v"
  by (auto simp: get_prop_def split: option.splits)

lemma get_prop_Undefined:
  "get_prop obj k = Undefined \<longleftrightarrow> map_of obj k = None \<and> k \<notin> set Object_prototype_keys"
  by (auto simp: get_prop_def split: option.splits)

lemma get_prop_Inherited:
  "get_prop obj k = Inherited \<longleftrightarrow> map_of obj k = None \<and> k \<in> set Object_prototype_keys"
  by (auto simp: get_prop_def split: option.splits)

lemma rows_for_simps [simp]:
  "rows_for pm [] k = []"
  "rows_for pm (t # ts) k =
     (if projectName_of pm t = k then row_of t # rows_for pm ts k else rows_for pm ts k)"
  by (simp_all add: rows_for_def)

text \<open>
  When the grouping returns, the group of every key holds the rows of exactly the
  tasks with that key, in task order, after what the accumulator held.
\<close>

lemma group_tasks_groups:
  "group_tasks st pm ts acc = Inr R \<Longrightarrow>
     map_of R k =
       (case map_of acc k of
          Some rows \<Rightarrow> Some (rows @ rows_for pm ts k)
        | None \<Rightarrow> if rows_for pm ts k = [] then None else Some (rows_for pm ts k))"
proof (induction ts arbitrary: acc)
  case Nil
  then show ?case by (simp split: option.splits)
next
  case (Cons t ts)
  let ?n = "projectName_of pm t"
  show ?case
  proof (cases "get_prop acc ?n")
    case (Own rows)
    then have m: "map_of acc ?n = Some rows" by (simp add: get_prop_Own)
    from Cons.prems Own
    have "group_tasks st pm ts (AList.update ?n (rows @ [row_of t]) acc) = Inr R"
      by (simp add: Let_def)
    from Cons.IH [OF this] m show ?thesis
      by (auto simp: update_conv' split: option.splits)
  next
    case Inherited
    with Cons.prems show ?thesis by (simp add: Let_def)
  next
    case Undefined
    then have m: "map_of acc ?n = None" by (simp add: get_prop_Undefined)
    from Cons.prems Undefined
    have "group_tasks st pm ts (AList.update ?n [row_of t] acc) = Inr R"
      by (simp add: Let_def)
    from Cons.IH [OF this] m show ?thesis
      by (auto simp: update_conv' split: option.splits)
  qed
qed

lemma group_tasks_distinct:
  "group_tasks st pm ts acc = Inr R \<Longrightarrow> distinct (map fst acc) \<Longrightarrow> distinct (map fst R)"
proof (induction ts arbitrary: acc)
  case Nil
  then show ?case by simp
next
  case (Cons t ts)
  then show ?case
    by (cases "get_prop acc (projectName_of pm t)") (auto simp: Let_def distinct_update)
qed

text \<open>The grouping returns unless some task's key is a property of \<open>Object.prototype\<close>.\<close>

lemma group_tasks_total:
  "\<forall>t\<in>set ts. projectName_of pm t \<notin> set Object_prototype_keys \<Longrightarrow>
     \<exists>R. group_tasks st pm ts acc = Inr R"
proof (induction ts arbitrary: acc)
  case Nil
  then show ?case by simp
next
  case (Cons t ts)
  then show ?case
    by (cases "get_prop acc (projectName_of pm t)") (auto simp: Let_def get_prop_Inherited)
qed

lemma group_tasks_throws:
  "group_tasks st pm ts acc = Inl e \<Longrightarrow> e = push_TypeError st"
proof (induction ts arbitrary: acc)
  case Nil
  then show ?case by simp
next
  case (Cons t ts)
  then show ?case
    by (cases "get_prop acc (projectName_of pm t)") (auto simp: Let_def)
qed

lemma group_tasks_empty:
  "group_tasks st pm ts [] = Inr R \<Longrightarrow> (R = [] \<longleftrightarrow> ts = [])"
proof (cases ts)
  case Nil
  assume "group_tasks st pm ts [] = Inr R"
  with Nil show ?thesis by simp
next
  case (Cons t rest)
  assume g: "group_tasks st pm ts [] = Inr R"
  have "map_of R (projectName_of pm t) \<noteq> None"
    using group_tasks_groups [OF g, of "projectName_of pm t"] Cons by simp
  then have "R \<noteq> []" by auto
  with Cons show ?thesis by simp
qed

lemma map_of_projectMap:
  "map_of (foldl (\<lambda>m p. set_prop m (project_id p) (project_name p)) acc ps) k = None
     \<longleftrightarrow> map_of acc k = None \<and> (k \<notin> project_id ` set ps \<or> k = js ''__proto__'')"
  by (induction ps arbitrary: acc) (auto simp: set_prop_def update_conv')

text \<open>
  The lookup \<open>projectMap[k]\<close> is undefined exactly for a key that is no fetched
  project's id and no property of \<open>Object.prototype\<close>.
\<close>

lemma get_prop_projectMap_Undefined:
  "get_prop (projectMap_of projects) k = Undefined \<longleftrightarrow>
     k \<notin> project_id ` set projects \<and> k \<notin> set Object_prototype_keys"
proof -
  have "js ''__proto__'' \<in> set Object_prototype_keys"
    by (simp add: Object_prototype_keys_def)
  then show ?thesis
    by (auto simp: get_prop_Undefined projectMap_of_def map_of_projectMap)
qed

subsection \<open>Enumeration of an object\<close>

lemma for_in_length [simp]: "length (for_in obj) = length obj"
  by (simp add: for_in_def sum_length_filter_compl)

lemma Object_keys_length [simp]: "length (Object_keys obj) = length obj"
  by (simp add: Object_keys_def)

text \<open>Where no key is an array index, enumeration follows the order of creation.\<close>

lemma for_in_no_index:
  "\<forall>k\<in>fst ` set obj. \<not> is_array_index k \<Longrightarrow> for_in obj = obj"
  by (auto simp: for_in_def filter_empty_conv filter_id_conv)

subsection \<open>Events of a report run\<close>

lemma documents_created_simps [simp]:
  "documents_created [] = []"
  "documents_created (e # evs) = created_document e @ documents_created evs"
  "documents_created (xs @ ys) = documents_created xs @ documents_created ys"
  by (simp_all add: documents_created_def)

lemma deleteYesterdaysReport_no_documents:
  "documents_created (fst (deleteYesterdaysReport svc folderId w)) = []"
  by (simp add: deleteYesterdaysReport_def cleanup_failed_def Let_def
      split: prod.splits sum.splits list.splits option.splits)

lemma getUncompletedTasksByProject_starts:
  "\<exists>rest. fst (getUncompletedTasksByProject svc apiToken w) =
     [LoggerLog (js ''Fetching projects from Todoist...''),
      CallFetchProjects (js ''Bearer '' @ apiToken)] @ rest"
  by (simp add: getUncompletedTasksByProject_def Let_def split: prod.splits sum.splits)

lemma createTodoistReport_continues:
  assumes "apiToken \<noteq> []" and "folderId \<noteq> []"
  shows "\<exists>rest. fst (createTodoistReport svc (Some apiToken) (Some folderId) w) =
     LoggerLog (js ''Starting Todoist report generation...'')
       # fst (deleteYesterdaysReport svc folderId w)
       @ fst (getUncompletedTasksByProject svc apiToken
                (snd (deleteYesterdaysReport svc folderId w)))
       @ rest"
  using assms
  by (simp add: createTodoistReport_def truthy_def Let_def
      split: prod.splits sum.splits option.splits)

text \<open>A run with both properties set is the start line, the cleanup, and the rest.\<close>

lemma createTodoistReport_after_cleanup:
  assumes "apiToken \<noteq> []" and "folderId \<noteq> []"
  shows "createTodoistReport svc (Some apiToken) (Some folderId) w =
     (LoggerLog (js ''Starting Todoist report generation...'')
        # fst (deleteYesterdaysReport svc folderId w)
        @ fst (report_after_cleanup svc apiToken folderId
                 (snd (deleteYesterdaysReport svc folderId w))),
      snd (report_after_cleanup svc apiToken folderId
             (snd (deleteYesterdaysReport svc folderId w))))"
  using assms
  by (simp add: createTodoistReport_def report_after_cleanup_def truthy_def Let_def
      split: prod.splits sum.splits option.splits)

lemma createAndPopulateSheet_documents:
  "documents_created (fst (createAndPopulateSheet svc g w)) = [sheetName_of (clock svc w)]"
  by (simp add: createAndPopulateSheet_def Let_def split: prod.splits sum.splits option.splits)

lemma exportSheetAsPdf_name:
  "getFolderById svc folderId w = (Inr folder, w1) \<Longrightarrow>
     documents_created (fst (exportSheetAsPdf svc ss folderId w)) = [getName ss @ js ''.pdf'']"
  by (simp add: exportSheetAsPdf_def export_catch_def Let_def split: prod.splits sum.splits)

subsection \<open>Numbers and names\<close>

lemma nat_digits_nonempty: "nat_digits n \<noteq> []"
  by (subst nat_digits.simps) simp

lemma digit_word: "d < 10 \<Longrightarrow> unat (of_nat (48 + d) :: 16 word) = 48 + d"
  by (simp only: unat_of_nat) simp

lemma nat_digits_no_leading_zero: "0 < n \<Longrightarrow> hd (nat_digits n) \<noteq> 48"
proof (induction n rule: nat_digits.induct)
  case (1 n)
  show ?case
  proof (cases "n < 10")
    case True
    then have "unat (of_nat (48 + n) :: 16 word) = 48 + n" by (rule digit_word)
    moreover have "unat (48 :: 16 word) = 48" by simp
    ultimately have "(of_nat (48 + n) :: 16 word) \<noteq> 48"
      using \<open>0 < n\<close> by (metis add_cancel_right_right less_numeral_extra(3))
    with True show ?thesis by (subst nat_digits.simps) (simp del: of_nat_add)
  next
    case False
    then have "0 < n div 10" by simp
    with 1 False have "hd (nat_digits (n div 10)) \<noteq> 48" by simp
    with False show ?thesis
      by (subst nat_digits.simps) (simp add: nat_digits_nonempty)
  qed
qed

lemma decimal_value_nat_digits: "decimal_value (nat_digits n) = n"
proof (induction n rule: nat_digits.induct)
  case (1 n)
  show ?case
  proof (cases "n < 10")
    case True
    then show ?thesis
      using digit_word [of n]
      by (subst nat_digits.simps) (simp add: decimal_value_def del: of_nat_add)
  next
    case False
    have "n mod 10 < 10" by simp
    then have u: "unat (of_nat (48 + n mod 10) :: 16 word) = 48 + n mod 10"
      by (rule digit_word)
    from 1 False have "decimal_value (nat_digits (n div 10)) = n div 10" by simp
    with False u show ?thesis
      by (subst nat_digits.simps) (simp add: decimal_value_def del: of_nat_add)
  qed
qed

lemma Number_toString_nat: "Number_toString (int n) = nat_digits n"
  by (simp add: Number_toString_def)

lemma Number_toString_Suc: "Number_toString (int n + 1) = nat_digits (n + 1)"
  using Number_toString_nat [of "n + 1"] by (simp add: add.commute)

lemma fileName_is_pdf_of_yesterday:
  "fileName_of now = sheetName_of (yesterday_of now) @ js ''.pdf''"
  by (simp add: fileName_of_def sheetName_of_def Let_def)

lemma nat_digits_numeral:
  "nat_digits (numeral k) =
     (if numeral k < (10::nat) then [of_nat (48 + numeral k)]
      else nat_digits (numeral k div 10) @ [of_nat (48 + numeral k mod 10)])"
  by (rule nat_digits.simps)

lemma nat_digits_small: "nat_digits 1 = [49]" "nat_digits (Suc 0) = [49]" "nat_digits 0 = [48]"
  by (simp_all add: nat_digits.simps)

lemmas date_defs = fileName_of_def sheetName_of_def yesterday_of_def days_in_month_def
  Number_toString_def nat_digits_numeral nat_digits_small Let_def js_def

text \<open>
  The day before the first of a month is the last day of the month before, in a leap
  year and in a common year, and across the turn of the year.
\<close>

lemma yesterday_of_examples:
  "yesterday_of \<lparr> getFullYear = 2024, getMonth = 2, getDate = 1 \<rparr>
     = \<lparr> getFullYear = 2024, getMonth = 1, getDate = 29 \<rparr>"
  "yesterday_of \<lparr> getFullYear = 2023, getMonth = 2, getDate = 1 \<rparr>
     = \<lparr> getFullYear = 2023, getMonth = 1, getDate = 28 \<rparr>"
  "yesterday_of \<lparr> getFullYear = 1900, getMonth = 2, getDate = 1 \<rparr>
     = \<lparr> getFullYear = 1900, getMonth = 1, getDate = 28 \<rparr>"
  "yesterday_of \<lparr> getFullYear = 2000, getMonth = 2, getDate = 1 \<rparr>
     = \<lparr> getFullYear = 2000, getMonth = 1, getDate = 29 \<rparr>"
  "yesterday_of \<lparr> getFullYear = 2024, getMonth = 0, getDate = 1 \<rparr>
     = \<lparr> getFullYear = 2023, getMonth = 11, getDate = 31 \<rparr>"
  "yesterday_of \<lparr> getFullYear = 2024, getMonth = 4, getDate = 1 \<rparr>
     = \<lparr> getFullYear = 2024, getMonth = 3, getDate = 30 \<rparr>"
  "yesterday_of \<lparr> getFullYear = 2024, getMonth = 7, getDate = 1 \<rparr>
     = \<lparr> getFullYear = 2024, getMonth = 6, getDate = 31 \<rparr>"
  "yesterday_of \<lparr> getFullYear = 2024, getMonth = 2, getDate = 6 \<rparr>
     = \<lparr> getFullYear = 2024, getMonth = 2, getDate = 5 \<rparr>"
  "fileName_of \<lparr> getFullYear = 2024, getMonth = 0, getDate = 1 \<rparr>
     = js ''Todoist Report - 12-31-2023.pdf''"
  by (simp_all add: date_defs)

section \<open>Sync pipeline: the claims\<close>

text \<open>
  C1. For every task that the sync processes, the delete call against the source list
  is issued if and only if the creation call returned status 200; when creation fails
  or throws, the task is not deleted and processing goes on with the next task; a
  repeated run over the same source tasks attempts the task again.

  The first conjunct is the callback: it issues the deletion of the task exactly when
  \<open>creation_succeeds\<close>. The second is the batch: whatever came before, the task at
  any position contributes its deletion exactly when its creation succeeded in the
  world reached by then, and the remaining tasks are processed after it. The third
  and fourth say that a run issues one creation call for every task with a title, in
  order, whatever the services answer: so do a second run, from any world and with
  any behaviour of the services. The last is \<open>syncGoogleTasksToTodoist\<close> itself: once
  the list is found and its tasks are listed, the calls of the run are those of the
  batch.
\<close>

theorem source_deleted_iff_created:
  "deletion_calls (fst (processTask svc lid tok task w)) =
     (if creation_succeeds svc tok task w then [(lid, task_id task)] else [])
   \<and> deletion_calls (fst (forEach_tasks svc lid tok (before @ task # rest) w)) =
       deletion_calls (fst (forEach_tasks svc lid tok before w))
       @ (if creation_succeeds svc tok task (snd (forEach_tasks svc lid tok before w))
          then [(lid, task_id task)] else [])
       @ deletion_calls (fst (forEach_tasks svc lid tok rest
           (snd (processTask svc lid tok task (snd (forEach_tasks svc lid tok before w))))))
   \<and> creation_calls (fst (forEach_tasks svc lid tok ts w)) = List.map_filter todoistPayload ts
   \<and> creation_calls (fst (forEach_tasks svc' lid tok ts w')) =
       creation_calls (fst (forEach_tasks svc lid tok ts w))
   \<and> (tok \<noteq> [] \<and> listName \<noteq> []
        \<and> getTaskListIdByName svc listName w0 = (ev0, Some lid, w1) \<and> lid \<noteq> []
        \<and> Tasks_list svc lid w1 = (Inr (Some items), w2) \<longrightarrow>
      creation_calls (fst (syncGoogleTasksToTodoist svc (Some tok) (Some listName) w0))
        = List.map_filter todoistPayload items
      \<and> deletion_calls (fst (syncGoogleTasksToTodoist svc (Some tok) (Some listName) w0))
        = deletion_calls (fst (forEach_tasks svc lid tok items w2)))"
  using sync_runs_batch(1,2) [of tok listName svc w0 ev0 lid w1 items w2]
  by (simp only: processTask_deletion_calls forEach_tasks_deletion_calls
      forEach_tasks_creation_calls simp_thms) blast

text \<open>
  Three tasks, of which the destination rejects the second: the run attempts all
  three, deletes the first and the third, and leaves the second in the source list;
  a second run attempts the second again.
\<close>

theorem source_deleted_iff_created_witness:
  "getTaskListIdByName sim_services (js ''My Tasks'') sim_start
     = ([CallTasklistsList], Some (js ''L1''), sim_start)
   \<and> Tasks_list sim_services (js ''L1'') sim_start = (Inr (Some sim_three), sim_start)
   \<and> creation_calls (fst (syncGoogleTasksToTodoist sim_services (Some (js ''k''))
        (Some (js ''My Tasks'')) sim_start))
     = [\<lparr> content = js ''a'', description = [], due_date = None \<rparr>,
        \<lparr> content = js ''b'', description = [], due_date = None \<rparr>,
        \<lparr> content = js ''c'', description = [], due_date = None \<rparr>]
   \<and> deletion_calls (fst (syncGoogleTasksToTodoist sim_services (Some (js ''k''))
        (Some (js ''My Tasks'')) sim_start))
     = [(js ''L1'', js ''1''), (js ''L1'', js ''3'')]
   \<and> source_tasks (snd (syncGoogleTasksToTodoist sim_services (Some (js ''k''))
        (Some (js ''My Tasks'')) sim_start))
     = [sim_task ''2'' ''b'']
   \<and> creation_calls (fst (syncGoogleTasksToTodoist sim_services (Some (js ''k''))
        (Some (js ''My Tasks''))
        (snd (syncGoogleTasksToTodoist sim_services (Some (js ''k''))
           (Some (js ''My Tasks'')) sim_start))))
     = [\<lparr> content = js ''b'', description = [], due_date = None \<rparr>]"
proof -
  have k: "js ''k'' \<noteq> [] \<and> js ''My Tasks'' \<noteq> []
      \<and> getTaskListIdByName sim_services (js ''My Tasks'') sim_start
          = ([CallTasklistsList], Some (js ''L1''), sim_start)
      \<and> js ''L1'' \<noteq> []
      \<and> Tasks_list sim_services (js ''L1'') sim_start = (Inr (Some sim_three), sim_start)"
    by (simp add: getTaskListIdByName_def sim_services_def sim_tasks_services_def sim_start_def js_def)
  have d: "deletion_calls (fst (forEach_tasks sim_services (js ''L1'') (js ''k'') sim_three sim_start))
      = [(js ''L1'', js ''1''), (js ''L1'', js ''3'')]"
    by (simp add: sim_defs sync_defs)
  have p: "List.map_filter todoistPayload sim_three
     = [\<lparr> content = js ''a'', description = [], due_date = None \<rparr>,
        \<lparr> content = js ''b'', description = [], due_date = None \<rparr>,
        \<lparr> content = js ''c'', description = [], due_date = None \<rparr>]"
    by (simp add: sim_defs sync_defs)
  have s: "snd (syncGoogleTasksToTodoist sim_services (Some (js ''k'')) (Some (js ''My Tasks''))
        sim_start) = \<lparr> source_tasks = [sim_task ''2'' ''b''],
          destination = [\<lparr> content = js ''a'', description = [], due_date = None \<rparr>,
                         \<lparr> content = js ''c'', description = [], due_date = None \<rparr>] \<rparr>"
    by (simp add: run_defs sim_defs sync_defs)
  have again: "creation_calls (fst (syncGoogleTasksToTodoist sim_services (Some (js ''k''))
        (Some (js ''My Tasks''))
        \<lparr> source_tasks = [sim_task ''2'' ''b''],
          destination = [\<lparr> content = js ''a'', description = [], due_date = None \<rparr>,
                         \<lparr> content = js ''c'', description = [], due_date = None \<rparr>] \<rparr>))
     = [\<lparr> content = js ''b'', description = [], due_date = None \<rparr>]"
    by (simp add: run_defs sim_defs sync_defs)
  from source_deleted_iff_created [of sim_services "js ''L1''" "js ''k''" "sim_task ''2'' ''b''"
      sim_start "[]" "[]" "[]" sim_services sim_start "js ''My Tasks''" sim_start
      "[CallTasklistsList]" sim_start sim_three sim_start] k
  have "creation_calls (fst (syncGoogleTasksToTodoist sim_services (Some (js ''k''))
        (Some (js ''My Tasks'')) sim_start)) = List.map_filter todoistPayload sim_three
      \<and> deletion_calls (fst (syncGoogleTasksToTodoist sim_services (Some (js ''k''))
        (Some (js ''My Tasks'')) sim_start))
        = deletion_calls (fst (forEach_tasks sim_services (js ''L1'') (js ''k'') sim_three sim_start))"
    by blast
  with k d p s again show ?thesis by simp
qed

text \<open>
  The description of a payload, for any task that yields one and whose first link of
  type \<open>email\<close> is \<open>l\<close>.
\<close>

lemma description_of_payload:
  assumes "todoistPayload task = Some p"
    and "links task = Some (before @ l # rest)"
    and "type l = js ''email''"
    and "\<forall>x\<in>set before. type x \<noteq> js ''email''"
  shows "description p =
           trim ((case task_notes task of
                    None \<Rightarrow> []
                  | Some n \<Rightarrow> if n = [] then [] else n @ js ''\<newline>\<newline>---\<newline>'')
                 @ js ''Linked Email: '' @ link l)
         \<and> (link l \<noteq> [] \<and> \<not> is_js_whitespace (last (link l)) \<longrightarrow>
              suffix (js ''Linked Email: '' @ link l) (description p)
              \<and> (\<forall>n. task_notes task = Some n \<and> (\<exists>c\<in>set n. \<not> is_js_whitespace c) \<longrightarrow>
                    description p = dropWhile is_js_whitespace n
                      @ js ''\<newline>\<newline>---\<newline>'' @ js ''Linked Email: '' @ link l))"
proof -
  let ?sep = "js ''\<newline>\<newline>---\<newline>''"
  let ?ann = "js ''Linked Email: '' @ link l"
  let ?pre = "case task_notes task of None \<Rightarrow> [] | Some n \<Rightarrow> if n = [] then [] else n @ ?sep"
  have el: "emailLink task = Some l"
    using assms(2-4) by (simp add: emailLink_def find_first)
  have d: "description p = trim (?pre @ ?ann)"
    using assms(1) el
    by (auto simp: todoistPayload_def description_of_def Let_def split: option.splits if_splits)
  have "suffix ?ann (description p)
        \<and> (\<forall>n. task_notes task = Some n \<and> (\<exists>c\<in>set n. \<not> is_js_whitespace c) \<longrightarrow>
              description p = dropWhile is_js_whitespace n @ ?sep @ ?ann)"
    if u: "link l \<noteq> []" "\<not> is_js_whitespace (last (link l))"
  proof -
    have "trim (?pre @ ?ann) = dropWhile is_js_whitespace (?pre @ ?ann)"
      using u by (intro trim_no_trailing) simp_all
    then have dd: "description p = dropWhile is_js_whitespace (?pre @ ?ann)"
      using d by simp
    have "suffix ?ann (dropWhile is_js_whitespace (pre @ ?ann))" for pre
    proof (cases "\<exists>c\<in>set pre. \<not> is_js_whitespace c")
      case True
      then obtain c where "c \<in> set pre" "\<not> is_js_whitespace c" by blast
      then have "dropWhile is_js_whitespace (pre @ ?ann) = dropWhile is_js_whitespace pre @ ?ann"
        by (rule dropWhile_append1)
      then show ?thesis by (simp add: suffix_def)
    next
      case False
      then have "dropWhile is_js_whitespace (pre @ ?ann) = dropWhile is_js_whitespace ?ann"
        by (simp add: dropWhile_append2)
      then show ?thesis by (simp only: dropWhile_annotation suffix_order.refl)
    qed
    then have s: "suffix ?ann (description p)" using dd by simp
    have "description p = dropWhile is_js_whitespace n @ ?sep @ ?ann"
      if n: "task_notes task = Some n" "\<exists>c\<in>set n. \<not> is_js_whitespace c" for n
    proof -
      from n(2) obtain c where c: "c \<in> set n" "\<not> is_js_whitespace c" by blast
      then have "n \<noteq> []" by auto
      then have "?pre = n @ ?sep" using n(1) by simp
      then have "description p = dropWhile is_js_whitespace (n @ (?sep @ ?ann))"
        using dd by simp
      also have "\<dots> = dropWhile is_js_whitespace n @ (?sep @ ?ann)"
        using c by (rule dropWhile_append1)
      finally show ?thesis .
    qed
    with s show ?thesis by blast
  qed
  with d show ?thesis by blast
qed

text \<open>
  C3, as amended. For every source task with a title (present and non-empty) and at
  least one link of type \<open>email\<close>, with \<open>l\<close> the first such link (later ones are
  ignored): the task yields a payload, which is the payload of the one creation call
  that the callback issues; it carries the title, and its description is the trimmed
  concatenation of the notes, the separator of two newlines, three hyphens and a
  newline when the notes are non-empty, and \<open>Linked Email: \<close> followed by the URL of
  \<open>l\<close>. When that URL is non-empty and does not end in whitespace, the description
  ends with \<open>Linked Email: \<close> and the URL; when moreover the notes hold a character
  that is not whitespace, the description is the notes without their leading
  whitespace, the whole separator, and the annotation.
\<close>

theorem linked_email_description:
  assumes "truthy (title task)"
    and "links task = Some (before @ l # rest)"
    and "type l = js ''email''"
    and "\<forall>x\<in>set before. type x \<noteq> js ''email''"
  shows "\<exists>p. todoistPayload task = Some p
         \<and> creation_calls (fst (processTask svc lid tok task w)) = [p]
         \<and> title task = Some (content p)
         \<and> description p =
             trim ((case task_notes task of
                      None \<Rightarrow> []
                    | Some n \<Rightarrow> if n = [] then [] else n @ js ''\<newline>\<newline>---\<newline>'')
                   @ js ''Linked Email: '' @ link l)
         \<and> (link l \<noteq> [] \<and> \<not> is_js_whitespace (last (link l)) \<longrightarrow>
              suffix (js ''Linked Email: '' @ link l) (description p)
              \<and> (\<forall>n. task_notes task = Some n \<and> (\<exists>c\<in>set n. \<not> is_js_whitespace c) \<longrightarrow>
                    description p = dropWhile is_js_whitespace n
                      @ js ''\<newline>\<newline>---\<newline>'' @ js ''Linked Email: '' @ link l))"
proof -
  from assms(1) obtain p where p: "todoistPayload task = Some p" "title task = Some (content p)"
    using todoistPayload_Some by blast
  have c: "creation_calls (fst (processTask svc lid tok task w)) = [p]"
    by (simp add: processTask_creation_calls p(1))
  note d = description_of_payload [OF p(1) assms(2-4)]
  show ?thesis
  proof (intro exI conjI)
    show "todoistPayload task = Some p" by (fact p(1))
    show "creation_calls (fst (processTask svc lid tok task w)) = [p]" by (fact c)
    show "title task = Some (content p)" by (fact p(2))
    show "description p =
             trim ((case task_notes task of
                      None \<Rightarrow> []
                    | Some n \<Rightarrow> if n = [] then [] else n @ js ''\<newline>\<newline>---\<newline>'')
                   @ js ''Linked Email: '' @ link l)"
      using d by (rule conjunct1)
    show "link l \<noteq> [] \<and> \<not> is_js_whitespace (last (link l)) \<longrightarrow>
              suffix (js ''Linked Email: '' @ link l) (description p)
              \<and> (\<forall>n. task_notes task = Some n \<and> (\<exists>c\<in>set n. \<not> is_js_whitespace c) \<longrightarrow>
                    description p = dropWhile is_js_whitespace n
                      @ js ''\<newline>\<newline>---\<newline>'' @ js ''Linked Email: '' @ link l)"
      using d by (rule conjunct2)
  qed
qed

text \<open>
  The task \<open>Call Bob\<close> with notes, one email link and a due timestamp: its
  description is the notes, the separator and the annotation.
\<close>

theorem linked_email_description_witness:
  "truthy (title call_bob)
   \<and> links call_bob = Some [\<lparr> type = js ''email'', link = js ''https://mail.example/x'' \<rparr>]
   \<and> task_notes call_bob = Some (js ''re: contract'')
   \<and> map_option description (todoistPayload call_bob)
       = Some (js ''re: contract'' @ js ''\<newline>\<newline>---\<newline>''
           @ js ''Linked Email: '' @ js ''https://mail.example/x'')"
proof -
  let ?l = "\<lparr> type = js ''email'', link = js ''https://mail.example/x'' \<rparr>"
  have h: "truthy (title call_bob)"
    by (simp add: call_bob_def truthy_def js_def)
  have l: "links call_bob = Some ([] @ ?l # [])"
    by (simp add: call_bob_def)
  have t: "type ?l = js ''email''"
    by simp
  have b: "\<forall>x\<in>set []. type x \<noteq> js ''email''" by simp
  have u: "link ?l \<noteq> [] \<and> \<not> is_js_whitespace (last (link ?l))"
    by (simp add: js_def is_js_whitespace_def)
  have n: "task_notes call_bob = Some (js ''re: contract'')
      \<and> (\<exists>c\<in>set (js ''re: contract''). \<not> is_js_whitespace c)"
    by (simp add: call_bob_def js_def is_js_whitespace_def)
  have d: "dropWhile is_js_whitespace (js ''re: contract'') = js ''re: contract''"
    by (simp add: js_def is_js_whitespace_def)
  note inst = linked_email_description [OF h l t b, of sim_services "js ''L1''" "js ''k''" sim_start]
  from inst obtain p where p: "todoistPayload call_bob = Some p"
    and q: "link ?l \<noteq> [] \<and> \<not> is_js_whitespace (last (link ?l)) \<longrightarrow>
              suffix (js ''Linked Email: '' @ link ?l) (description p)
              \<and> (\<forall>n. task_notes call_bob = Some n \<and> (\<exists>c\<in>set n. \<not> is_js_whitespace c) \<longrightarrow>
                    description p = dropWhile is_js_whitespace n
                      @ js ''\<newline>\<newline>---\<newline>'' @ js ''Linked Email: '' @ link ?l)"
    by (elim exE conjE) (rule that, assumption+)
  from q u
  have r: "suffix (js ''Linked Email: '' @ link ?l) (description p)
              \<and> (\<forall>n. task_notes call_bob = Some n \<and> (\<exists>c\<in>set n. \<not> is_js_whitespace c) \<longrightarrow>
                    description p = dropWhile is_js_whitespace n
                      @ js ''\<newline>\<newline>---\<newline>'' @ js ''Linked Email: '' @ link ?l)"
    by (rule mp)
  note r [THEN conjunct2, rule_format, OF n]
  then have e: "description p = js ''re: contract''
          @ js ''\<newline>\<newline>---\<newline>'' @ js ''Linked Email: '' @ js ''https://mail.example/x''"
    by (simp only: d gtask_link.simps)
  have m: "map_option description (todoistPayload call_bob)
       = Some (js ''re: contract'' @ js ''\<newline>\<newline>---\<newline>''
           @ js ''Linked Email: '' @ js ''https://mail.example/x'')"
    by (simp only: p e option.map)
  from l have l': "links call_bob = Some [?l]" by simp
  from h l' n [THEN conjunct1] m show ?thesis by (intro conjI)
qed

text \<open>
  C3 as it was stated fails. A task whose notes are one space and whose email link is
  \<open>u\<close> gets the description \<open>---\<close>, newline, \<open>Linked Email: u\<close>: the notes are non-empty, yet
  the first two characters of the separator are trimmed away. A task without notes
  whose email link has the empty URL gets \<open>Linked Email:\<close>, which does not end with
  \<open>Linked Email: \<close>.
\<close>

theorem linked_email_counterexample:
  "task_notes blank_notes_task = Some (js '' '')
   \<and> links blank_notes_task = Some [\<lparr> type = js ''email'', link = js ''u'' \<rparr>]
   \<and> map_option description (todoistPayload blank_notes_task)
       = Some (js ''---\<newline>Linked Email: u'')
   \<and> \<not> suffix (js ''\<newline>\<newline>---\<newline>Linked Email: u'') (js ''---\<newline>Linked Email: u'')
   \<and> links empty_url_task = Some [\<lparr> type = js ''email'', link = [] \<rparr>]
   \<and> map_option description (todoistPayload empty_url_task) = Some (js ''Linked Email:'')
   \<and> \<not> suffix (js ''Linked Email: '') (js ''Linked Email:'')"
  by (simp add: blank_notes_task_def empty_url_task_def sync_defs is_js_whitespace_def suffix_def)

text \<open>
  C4. For every source task lacking a title (missing or empty), no payload is
  produced and the callback does nothing: no event, no call, the world unchanged. In
  a batch, the run is the run of the batch without that task.
\<close>

theorem untitled_task_skipped:
  assumes "\<not> truthy (title task)"
  shows "todoistPayload task = None
       \<and> processTask svc lid tok task w = ([], w)
       \<and> forEach_tasks svc lid tok (before @ task # rest) w =
           forEach_tasks svc lid tok (before @ rest) w"
proof -
  have n: "todoistPayload task = None" using assms by (rule todoistPayload_None)
  then have p: "processTask svc lid tok task w' = ([], w')" for w'
    by (rule processTask_untitled)
  have "forEach_tasks svc lid tok (task # rest) w' = forEach_tasks svc lid tok rest w'" for w'
    by (simp add: p split: prod.splits)
  then have "forEach_tasks svc lid tok (before @ task # rest) w =
             forEach_tasks svc lid tok (before @ rest) w"
    by (simp add: forEach_tasks_append)
  with n p show ?thesis by simp
qed

theorem untitled_task_skipped_witness:
  "\<not> truthy (title (sim_task ''2'' ''''))
   \<and> todoistPayload (sim_task ''2'' '''') = None
   \<and> forEach_tasks sim_services (js ''L1'') (js ''k'')
       [sim_task ''1'' ''a'', sim_task ''2'' '''', sim_task ''3'' ''c''] sim_start
     = forEach_tasks sim_services (js ''L1'') (js ''k'')
       [sim_task ''1'' ''a'', sim_task ''3'' ''c''] sim_start"
proof -
  have h: "\<not> truthy (title (sim_task ''2'' ''''))" by (simp add: sim_task_def truthy_def)
  show ?thesis
    using h untitled_task_skipped [OF h, of sim_services "js ''L1''" "js ''k''" sim_start
        "[sim_task ''1'' ''a'']" "[sim_task ''3'' ''c'']"]
    by simp
qed

text \<open>The \<open>due_date\<close> of a payload, for any task that yields one.\<close>

lemma due_date_of_payload:
  assumes "todoistPayload task = Some p"
  shows "due_date p = (case due task of
                         None \<Rightarrow> None
                       | Some d \<Rightarrow> if d = [] then None else Some (take 10 d))
       \<and> (\<forall>d. due task = Some d \<and> 10 \<le> length d \<longrightarrow>
             due_date p = Some (take 10 d) \<and> length (take 10 d) = 10)
       \<and> (due task = None \<longrightarrow> due_date p = None)"
  using assms
  by (auto simp: todoistPayload_def substring_def Let_def min_def split: option.splits if_splits)

text \<open>
  C6. Every source task with a title (present and non-empty) yields a payload, the
  payload of the one creation call that the callback issues. When the task's due
  value is present with at least 10 characters, the payload's \<open>due_date\<close> is exactly
  its first 10 characters; when the due value is absent, the payload has no
  \<open>due_date\<close>. In full, \<open>due_date\<close> is the first 10 characters of a present,
  non-empty due value and missing otherwise.
\<close>

theorem due_date_first_ten:
  assumes "truthy (title task)"
  shows "\<exists>p. todoistPayload task = Some p
       \<and> creation_calls (fst (processTask svc lid tok task w)) = [p]
       \<and> due_date p = (case due task of
                         None \<Rightarrow> None
                       | Some d \<Rightarrow> if d = [] then None else Some (take 10 d))
       \<and> (\<forall>d. due task = Some d \<and> 10 \<le> length d \<longrightarrow>
             due_date p = Some (take 10 d) \<and> length (take 10 d) = 10)
       \<and> (due task = None \<longrightarrow> due_date p = None)"
proof -
  from assms obtain p where p: "todoistPayload task = Some p"
    using todoistPayload_Some by blast
  have c: "creation_calls (fst (processTask svc lid tok task w)) = [p]"
    by (simp add: processTask_creation_calls p)
  note d = due_date_of_payload [OF p]
  have "todoistPayload task = Some p
       \<and> creation_calls (fst (processTask svc lid tok task w)) = [p]
       \<and> due_date p = (case due task of
                         None \<Rightarrow> None
                       | Some d \<Rightarrow> if d = [] then None else Some (take 10 d))
       \<and> (\<forall>d. due task = Some d \<and> 10 \<le> length d \<longrightarrow>
             due_date p = Some (take 10 d) \<and> length (take 10 d) = 10)
       \<and> (due task = None \<longrightarrow> due_date p = None)"
    by (rule conjI [OF p conjI [OF c d]])
  then show ?thesis by (rule exI)
qed

theorem due_date_first_ten_witness:
  "truthy (title call_bob)
   \<and> due call_bob = Some (js ''2024-05-01T00:00:00Z'')
   \<and> map_option due_date (todoistPayload call_bob) = Some (Some (js ''2024-05-01''))
   \<and> creation_calls (fst (processTask sim_services (js ''L1'') (js ''k'') call_bob sim_start))
       = [call_bob_payload]"
proof -
  have h: "truthy (title call_bob)"
    by (simp add: call_bob_def truthy_def js_def)
  have d: "due call_bob = Some (js ''2024-05-01T00:00:00Z'')
      \<and> 10 \<le> length (js ''2024-05-01T00:00:00Z'')
      \<and> take 10 (js ''2024-05-01T00:00:00Z'') = js ''2024-05-01''"
    by (simp add: call_bob_def js_def)
  from due_date_first_ten [OF h, of sim_services "js ''L1''" "js ''k''" sim_start]
  obtain p where p: "todoistPayload call_bob = Some p"
    and c: "creation_calls (fst (processTask sim_services (js ''L1'') (js ''k'') call_bob
        sim_start)) = [p]"
    and q: "\<forall>d. due call_bob = Some d \<and> 10 \<le> length d \<longrightarrow>
             due_date p = Some (take 10 d) \<and> length (take 10 d) = 10"
    by blast
  from q d have "due_date p = Some (js ''2024-05-01'')" by auto
  moreover from p call_bob_payload have "p = call_bob_payload" by simp
  ultimately show ?thesis using h d p c by simp
qed




section \<open>Report pipeline: the claims\<close>

text \<open>
  C2. The claim: for every non-empty task list the grouping places each task in exactly
  one project group, with its content unaltered and its due string or \<open>No due date\<close>,
  and drops no task. The code does so whenever it returns (\<open>group_tasks_groups\<close>,
  \<open>group_tasks_distinct\<close>), but it does not always return: one task in a project
  named \<open>constructor\<close> makes \<open>tasksByProject[projectName]\<close> the inherited function
  \<open>Object\<close>, no array is created, and \<open>push\<close> throws a TypeError. No grouping
  results, and the error reaches the \<open>catch\<close> of \<open>createTodoistReport\<close>.
\<close>

theorem grouping_throws_on_prototype_name:
  "group_tasks st (projectMap_of constructor_projects) constructor_tasks [] = Inl (push_TypeError st)
   \<and> fst (snd (getUncompletedTasksByProject sim_report_services (js ''k'') sim_drive_start))
       = Inl (push_TypeError (js ''at getUncompletedTasksByProject''))"
  by (simp add: sim_drive_defs report_defs group_defs date_defs)

text \<open>The whole run on that input: the error is logged and nothing is created.\<close>

lemma report_run_on_prototype_name:
  "fst (createTodoistReport sim_report_services (Some (js ''k'')) (Some (js ''f'')) sim_drive_start)
     = [LoggerLog (js ''Starting Todoist report generation...''),
        CallGetFolderById (js ''f''),
        CallGetFilesByName (js ''f'') (js ''Todoist Report - 3-5-2024.pdf''),
        CallSetTrashed (js ''Todoist Report - 3-5-2024.pdf''),
        LoggerLog (js ''Could not clean up yesterday's report. Error: Error: unavailable''),
        LoggerLog (js ''Fetching projects from Todoist...''),
        CallFetchProjects (js ''Bearer k''),
        LoggerLog (js ''Fetching uncompleted tasks from Todoist...''),
        CallFetchTasks (js ''Bearer k''),
        LoggerLog (js ''Found 1 uncompleted tasks.''),
        LoggerLog (js ''An error occurred: TypeError: tasksByProject[projectName].push is not a function''),
        LoggerLog (js ''Stack: at getUncompletedTasksByProject'')]"
  by (simp add: sim_drive_defs report_defs group_defs date_defs push_TypeError_def)

text \<open>
  What holds of a task whose lookup \<open>projectMap[task.project_id]\<close> is undefined (its
  project id is no fetched project's id and no property of \<open>Object.prototype\<close>): the key
  chosen for it is \<open>Inbox\<close>, and in the result of a grouping that returns, also when
  reached through \<open>getUncompletedTasksByProject\<close>, its row is in the group of that key.
\<close>

lemma undefined_project_is_Inbox:
  assumes "get_prop (projectMap_of projects) (todo_project_id task) = Undefined"
  shows "projectName_of (projectMap_of projects) task = js ''Inbox''
       \<and> (task \<in> set tasks \<and> group_tasks st (projectMap_of projects) tasks [] = Inr tasksByProject \<longrightarrow>
            (\<exists>rows. map_of tasksByProject (js ''Inbox'') = Some rows \<and> row_of task \<in> set rows))
       \<and> (task \<in> set tasks
            \<and> fetch_projects svc (js ''Bearer '' @ apiToken) w = (Inr projects, w1)
            \<and> fetch_tasks svc (js ''Bearer '' @ apiToken) w1 = (Inr tasks, w2)
            \<and> fst (snd (getUncompletedTasksByProject svc apiToken w)) = Inr tasksByProject \<longrightarrow>
            (\<exists>rows. map_of tasksByProject (js ''Inbox'') = Some rows \<and> row_of task \<in> set rows))"
proof -
  let ?pm = "projectMap_of projects"
  have key: "projectName_of ?pm task = js ''Inbox''"
    using assms by (simp add: projectName_of_def)
  have grp: "\<exists>rows. map_of R (js ''Inbox'') = Some rows \<and> row_of task \<in> set rows"
    if "task \<in> set tasks" and g: "group_tasks s ?pm tasks [] = Inr R" for R s
  proof -
    have "row_of task \<in> set (rows_for ?pm tasks (js ''Inbox''))"
      using that(1) key by (auto simp: rows_for_def)
    moreover from this have "rows_for ?pm tasks (js ''Inbox'') \<noteq> []" by auto
    ultimately show ?thesis
      using group_tasks_groups [OF g, of "js ''Inbox''"] by simp
  qed
  have run: "fst (snd (getUncompletedTasksByProject svc apiToken w))
      = group_tasks (error_stack svc w2) ?pm tasks []"
    if "fetch_projects svc (js ''Bearer '' @ apiToken) w = (Inr projects, w1)"
      and "fetch_tasks svc (js ''Bearer '' @ apiToken) w1 = (Inr tasks, w2)"
    using that by (simp add: getUncompletedTasksByProject_def Let_def)
  show ?thesis
    using key grp run by auto
qed

lemma undefined_project_is_Inbox_example:
  "get_prop (projectMap_of errands_projects) (todo_project_id stray_task) = Undefined
   \<and> projectName_of (projectMap_of errands_projects) stray_task = js ''Inbox''
   \<and> group_tasks st (projectMap_of errands_projects) [buy_milk, stray_task] []
       = Inr [(js ''Errands'', [\<lparr> row_content = js ''Buy milk'', row_due = js ''No due date'' \<rparr>]),
              (js ''Inbox'', [\<lparr> row_content = [], row_due = js ''today'' \<rparr>])]"
  by (simp add: errands_projects_def stray_task_def buy_milk_def group_defs js_def Let_def)

text \<open>
  C5. The claim: every task whose project id has no matching entry in the project map
  built from the fetched projects is grouped under the key \<open>Inbox\<close>; the comment in
  the code says the same. The code does not always do so, for the reason of C2:
  \<open>projectMap\<close> and \<open>tasksByProject\<close> are plain objects. First, a task whose project
  id is \<open>constructor\<close>, with no project of that id fetched: \<open>projectMap[task.project_id]\<close>
  is the inherited function \<open>Object\<close>, which is truthy, and the task is grouped under
  that function's source text. Second, a task of an unknown project id next to a task
  of a project named \<open>constructor\<close>: the grouping throws, and no task is grouped
  under any key.
\<close>

theorem unresolved_project_not_Inbox:
  "todo_project_id prototype_id_task \<notin> project_id ` set errands_projects
   \<and> projectName_of (projectMap_of errands_projects) prototype_id_task
       = js ''function Object() { [native code] }''
   \<and> group_tasks st (projectMap_of errands_projects) [prototype_id_task] []
       = Inr [(js ''function Object() { [native code] }'',
               [\<lparr> row_content = js ''y'', row_due = js ''No due date'' \<rparr>])]
   \<and> todo_project_id stray_task \<notin> project_id ` set constructor_projects
   \<and> group_tasks st (projectMap_of constructor_projects) (stray_task # constructor_tasks) []
       = Inl (push_TypeError st)"
  by (simp add: errands_projects_def prototype_id_task_def stray_task_def
      constructor_projects_def constructor_tasks_def group_defs js_def Let_def)

text \<open>
  C7. A cleanup deletion that fails is logged and is not fatal. Report pipeline: when
  trashing yesterday's report throws, \<open>deleteYesterdaysReport\<close> logs the error and
  returns the world that the failed call left; the whole run of \<open>createTodoistReport\<close>
  is then the start line, the events of the cleanup, and the steps after the cleanup
  carried out from that world, beginning with the fetch of the projects: nothing of
  the report is skipped. Sync pipeline: when the removal of a source task throws
  after its creation returned 200, the error is logged, the rest of the batch is
  processed from the world the removal left, and every remaining task with a title
  gets its creation call.
\<close>

theorem cleanup_failure_not_fatal:
  "(apiToken \<noteq> [] \<and> folderId \<noteq> []
      \<and> getFolderById rsvc folderId w = (Inr folder, w1)
      \<and> getFilesByName rsvc folderId (fileName_of (clock rsvc w)) w1 = (Inr (file # others), w2)
      \<and> setTrashed rsvc file w2 = (Some e, w3) \<longrightarrow>
    deleteYesterdaysReport rsvc folderId w =
      ([CallGetFolderById folderId,
        CallGetFilesByName folderId (fileName_of (clock rsvc w)),
        CallSetTrashed file,
        LoggerLog (js ''Could not clean up yesterday's report. Error: '' @ toString e)], w3)
    \<and> createTodoistReport rsvc (Some apiToken) (Some folderId) w =
        (LoggerLog (js ''Starting Todoist report generation...'')
           # fst (deleteYesterdaysReport rsvc folderId w)
           @ fst (report_after_cleanup rsvc apiToken folderId w3),
         snd (report_after_cleanup rsvc apiToken folderId w3))
    \<and> (\<exists>rest. fst (createTodoistReport rsvc (Some apiToken) (Some folderId) w) =
          LoggerLog (js ''Starting Todoist report generation...'')
            # fst (deleteYesterdaysReport rsvc folderId w)
            @ [LoggerLog (js ''Fetching projects from Todoist...''),
               CallFetchProjects (js ''Bearer '' @ apiToken)] @ rest))
   \<and> (todoistPayload task = Some p
      \<and> fetch_post tsvc TODOIST_API_URL (js ''Bearer '' @ tok) p v = (Inr response, v1)
      \<and> getResponseCode response = 200
      \<and> Tasks_remove tsvc lid (task_id task) v1 = (Some e', v2) \<longrightarrow>
    ConsoleError (js ''Failed to delete task from Google Tasks (ID: '' @ task_id task
        @ js ''). Please delete it manually to avoid duplicates. Error: '' @ toString e')
      \<in> set (fst (processTask tsvc lid tok task v))
    \<and> forEach_tasks tsvc lid tok (task # remaining) v =
        (fst (processTask tsvc lid tok task v) @ fst (forEach_tasks tsvc lid tok remaining v2),
         snd (forEach_tasks tsvc lid tok remaining v2))
    \<and> creation_calls (fst (forEach_tasks tsvc lid tok remaining v2)) =
        List.map_filter todoistPayload remaining)"
proof (intro conjI impI)
  assume a: "apiToken \<noteq> [] \<and> folderId \<noteq> []
      \<and> getFolderById rsvc folderId w = (Inr folder, w1)
      \<and> getFilesByName rsvc folderId (fileName_of (clock rsvc w)) w1 = (Inr (file # others), w2)
      \<and> setTrashed rsvc file w2 = (Some e, w3)"
  then show d: "deleteYesterdaysReport rsvc folderId w =
      ([CallGetFolderById folderId,
        CallGetFilesByName folderId (fileName_of (clock rsvc w)),
        CallSetTrashed file,
        LoggerLog (js ''Could not clean up yesterday's report. Error: '' @ toString e)], w3)"
    by (simp add: deleteYesterdaysReport_def cleanup_failed_def Let_def)
  from a have t: "apiToken \<noteq> []" "folderId \<noteq> []" by simp_all
  from d have s: "snd (deleteYesterdaysReport rsvc folderId w) = w3" by simp
  from createTodoistReport_after_cleanup [OF t, of rsvc w]
  show "createTodoistReport rsvc (Some apiToken) (Some folderId) w =
        (LoggerLog (js ''Starting Todoist report generation...'')
           # fst (deleteYesterdaysReport rsvc folderId w)
           @ fst (report_after_cleanup rsvc apiToken folderId w3),
         snd (report_after_cleanup rsvc apiToken folderId w3))"
    by (simp only: s)
  from createTodoistReport_continues [OF t, of rsvc w]
    getUncompletedTasksByProject_starts [of rsvc apiToken
      "snd (deleteYesterdaysReport rsvc folderId w)"]
  show "\<exists>rest. fst (createTodoistReport rsvc (Some apiToken) (Some folderId) w) =
          LoggerLog (js ''Starting Todoist report generation...'')
            # fst (deleteYesterdaysReport rsvc folderId w)
            @ [LoggerLog (js ''Fetching projects from Todoist...''),
               CallFetchProjects (js ''Bearer '' @ apiToken)] @ rest"
    by (elim exE) simp
next
  assume b: "todoistPayload task = Some p
      \<and> fetch_post tsvc TODOIST_API_URL (js ''Bearer '' @ tok) p v = (Inr response, v1)
      \<and> getResponseCode response = 200
      \<and> Tasks_remove tsvc lid (task_id task) v1 = (Some e', v2)"
  then have b': "todoistPayload task = Some p"
      "fetch_post tsvc TODOIST_API_URL (js ''Bearer '' @ tok) p v = (Inr response, v1)"
      "getResponseCode response = 200"
      "Tasks_remove tsvc lid (task_id task) v1 = (Some e', v2)" by simp_all
  show "ConsoleError (js ''Failed to delete task from Google Tasks (ID: '' @ task_id task
        @ js ''). Please delete it manually to avoid duplicates. Error: '' @ toString e')
      \<in> set (fst (processTask tsvc lid tok task v))"
    by (rule processTask_remove_fails(1) [OF b'])
  have "snd (processTask tsvc lid tok task v) = v2"
    by (rule processTask_remove_fails(2) [OF b'])
  then show "forEach_tasks tsvc lid tok (task # remaining) v =
        (fst (processTask tsvc lid tok task v) @ fst (forEach_tasks tsvc lid tok remaining v2),
         snd (forEach_tasks tsvc lid tok remaining v2))"
    by (auto split: prod.splits)
  show "creation_calls (fst (forEach_tasks tsvc lid tok remaining v2)) =
        List.map_filter todoistPayload remaining"
    by (rule forEach_tasks_creation_calls)
qed

text \<open>
  Yesterday's report cannot be trashed: the failure is logged, the projects are
  fetched, and today's spreadsheet and PDF are created all the same. No source task
  can be removed: all three tasks are still attempted.
\<close>

theorem cleanup_failure_not_fatal_witness:
  "fst (deleteYesterdaysReport sim_report_services (js ''f'') sim_drive_stuck)
     = [CallGetFolderById (js ''f''),
        CallGetFilesByName (js ''f'') (js ''Todoist Report - 3-5-2024.pdf''),
        CallSetTrashed (js ''Todoist Report - 3-5-2024.pdf''),
        LoggerLog (js ''Could not clean up yesterday's report. Error: Error: unavailable'')]
   \<and> fst (createTodoistReport sim_report_services (Some (js ''k'')) (Some (js ''f''))
          sim_drive_stuck)
     = LoggerLog (js ''Starting Todoist report generation...'')
       # fst (deleteYesterdaysReport sim_report_services (js ''f'') sim_drive_stuck)
       @ [LoggerLog (js ''Fetching projects from Todoist...''),
          CallFetchProjects (js ''Bearer k''),
          LoggerLog (js ''Fetching uncompleted tasks from Todoist...''),
          CallFetchTasks (js ''Bearer k''),
          LoggerLog (js ''Found 1 uncompleted tasks.''),
          LoggerLog (js ''Creating new spreadsheet: \"Todoist Report - 3-6-2024\"''),
          CallSpreadsheetCreate (js ''Todoist Report - 3-6-2024''),
          CallSpreadsheetPopulate (js ''sheet'')
            [(js ''Errands'', [\<lparr> row_content = js ''Buy milk'', row_due = js ''No due date'' \<rparr>])],
          LoggerLog (js ''Spreadsheet has been populated and formatted.''),
          LoggerLog (js ''Exporting spreadsheet to PDF...''),
          CallGetFolderById (js ''f''),
          CallCreateFile (js ''f'') (js ''sheet'') (js ''Todoist Report - 3-6-2024.pdf''),
          LoggerLog (js ''PDF file created: Todoist Report - 3-6-2024.pdf in folder \"Reports\"''),
          CallSetTrashed (js ''sheet''),
          LoggerLog (js ''Successfully created Todoist report PDF. Check your specified Google Drive folder.'')]
   \<and> documents_created (fst (createTodoistReport sim_report_services (Some (js ''k''))
          (Some (js ''f'')) sim_drive_stuck))
     = [js ''Todoist Report - 3-6-2024'', js ''Todoist Report - 3-6-2024.pdf'']
   \<and> creation_calls (fst (forEach_tasks (sim_tasks_services sim_status (\<lambda>i. False)) (js ''L1'')
        (js ''k'') sim_three sim_start))
     = [\<lparr> content = js ''a'', description = [], due_date = None \<rparr>,
        \<lparr> content = js ''b'', description = [], due_date = None \<rparr>,
        \<lparr> content = js ''c'', description = [], due_date = None \<rparr>]"
proof -
  let ?p = "\<lparr> content = js ''a'', description = [], due_date = None \<rparr>"
  let ?w = "sim_start \<lparr> destination := [?p] \<rparr>"
  let ?S = "sim_tasks_services sim_status (\<lambda>i. False)"
  let ?pdf = "js ''Todoist Report - 3-5-2024.pdf''"
  have r: "js ''k'' \<noteq> [] \<and> js ''f'' \<noteq> []
      \<and> getFolderById sim_report_services (js ''f'') sim_drive_stuck
          = (Inr (js ''Reports''), sim_drive_stuck)
      \<and> getFilesByName sim_report_services (js ''f'')
          (fileName_of (clock sim_report_services sim_drive_stuck)) sim_drive_stuck
          = (Inr (?pdf # []), sim_drive_stuck)
      \<and> setTrashed sim_report_services ?pdf sim_drive_stuck = (Some sim_error, sim_drive_stuck)"
    by (simp add: sim_drive_defs date_defs)
  have s: "todoistPayload (sim_task ''1'' ''a'') = Some ?p
      \<and> fetch_post ?S TODOIST_API_URL (js ''Bearer '' @ js ''k'') ?p sim_start
          = (Inr \<lparr> getResponseCode = 200, getContentText = js ''ok'' \<rparr>, ?w)
      \<and> getResponseCode \<lparr> getResponseCode = 200, getContentText = js ''ok'' \<rparr> = 200
      \<and> Tasks_remove ?S (js ''L1'') (task_id (sim_task ''1'' ''a'')) ?w = (Some sim_error, ?w)"
    by (simp add: sim_defs sync_defs)
  note inst = cleanup_failure_not_fatal [of "js ''k''" "js ''f''" sim_report_services
      sim_drive_stuck "js ''Reports''" sim_drive_stuck ?pdf
      "[]" sim_drive_stuck sim_error sim_drive_stuck "sim_task ''1'' ''a''" ?p ?S "js ''k''"
      sim_start "\<lparr> getResponseCode = 200, getContentText = js ''ok'' \<rparr>" ?w "js ''L1''"
      sim_error ?w "[sim_task ''2'' ''b'', sim_task ''3'' ''c'']"]
  note report_half = inst [THEN conjunct1, THEN mp, OF r]
  note sync_half = inst [THEN conjunct2, THEN mp, OF s]
  note a = report_half [THEN conjunct1]
  note b = report_half [THEN conjunct2, THEN conjunct1]
  note c = sync_half [THEN conjunct2, THEN conjunct1]
  note d = sync_half [THEN conjunct2, THEN conjunct2]
  have f: "fileName_of (clock sim_report_services sim_drive_stuck) = ?pdf"
    by (simp add: sim_drive_defs date_defs)
  have g: "toString sim_error = js ''Error: unavailable''"
    by (simp add: toString_def sim_error_def js_def)
  have a': "fst (deleteYesterdaysReport sim_report_services (js ''f'') sim_drive_stuck)
     = [CallGetFolderById (js ''f''),
        CallGetFilesByName (js ''f'') ?pdf,
        CallSetTrashed ?pdf,
        LoggerLog (js ''Could not clean up yesterday's report. Error: Error: unavailable'')]"
    by (simp add: a f g) (simp add: js_def)
  have rest: "fst (report_after_cleanup sim_report_services (js ''k'') (js ''f'') sim_drive_stuck)
     = [LoggerLog (js ''Fetching projects from Todoist...''),
          CallFetchProjects (js ''Bearer k''),
          LoggerLog (js ''Fetching uncompleted tasks from Todoist...''),
          CallFetchTasks (js ''Bearer k''),
          LoggerLog (js ''Found 1 uncompleted tasks.''),
          LoggerLog (js ''Creating new spreadsheet: \"Todoist Report - 3-6-2024\"''),
          CallSpreadsheetCreate (js ''Todoist Report - 3-6-2024''),
          CallSpreadsheetPopulate (js ''sheet'')
            [(js ''Errands'', [\<lparr> row_content = js ''Buy milk'', row_due = js ''No due date'' \<rparr>])],
          LoggerLog (js ''Spreadsheet has been populated and formatted.''),
          LoggerLog (js ''Exporting spreadsheet to PDF...''),
          CallGetFolderById (js ''f''),
          CallCreateFile (js ''f'') (js ''sheet'') (js ''Todoist Report - 3-6-2024.pdf''),
          LoggerLog (js ''PDF file created: Todoist Report - 3-6-2024.pdf in folder \"Reports\"''),
          CallSetTrashed (js ''sheet''),
          LoggerLog (js ''Successfully created Todoist report PDF. Check your specified Google Drive folder.'')]"
    by (simp add: report_after_cleanup_def report_defs group_defs sim_drive_defs date_defs
        Object_keys_def for_in_def is_array_index_def decimal_value_def)
  have b': "fst (createTodoistReport sim_report_services (Some (js ''k'')) (Some (js ''f''))
          sim_drive_stuck)
     = LoggerLog (js ''Starting Todoist report generation...'')
       # fst (deleteYesterdaysReport sim_report_services (js ''f'') sim_drive_stuck)
       @ fst (report_after_cleanup sim_report_services (js ''k'') (js ''f'') sim_drive_stuck)"
    by (simp only: b fst_conv)
  have docs: "documents_created (fst (createTodoistReport sim_report_services (Some (js ''k''))
          (Some (js ''f'')) sim_drive_stuck))
     = [js ''Todoist Report - 3-6-2024'', js ''Todoist Report - 3-6-2024.pdf'']"
    by (simp only: b' a' rest) simp
  have e: "creation_calls (fst (processTask ?S (js ''L1'') (js ''k'') (sim_task ''1'' ''a'')
        sim_start)) = [?p]"
    by (simp add: sim_defs sync_defs)
  have sync: "creation_calls (fst (forEach_tasks ?S (js ''L1'') (js ''k'') sim_three sim_start))
     = [\<lparr> content = js ''a'', description = [], due_date = None \<rparr>,
        \<lparr> content = js ''b'', description = [], due_date = None \<rparr>,
        \<lparr> content = js ''c'', description = [], due_date = None \<rparr>]"
    using c d e
    by (simp add: sim_three_def)
       (simp add: sim_task_def todoistPayload_def description_of_def emailLink_def trim_def js_def)
  have b'': "fst (createTodoistReport sim_report_services (Some (js ''k'')) (Some (js ''f''))
          sim_drive_stuck)
     = LoggerLog (js ''Starting Todoist report generation...'')
       # fst (deleteYesterdaysReport sim_report_services (js ''f'') sim_drive_stuck)
       @ [LoggerLog (js ''Fetching projects from Todoist...''),
          CallFetchProjects (js ''Bearer k''),
          LoggerLog (js ''Fetching uncompleted tasks from Todoist...''),
          CallFetchTasks (js ''Bearer k''),
          LoggerLog (js ''Found 1 uncompleted tasks.''),
          LoggerLog (js ''Creating new spreadsheet: \"Todoist Report - 3-6-2024\"''),
          CallSpreadsheetCreate (js ''Todoist Report - 3-6-2024''),
          CallSpreadsheetPopulate (js ''sheet'')
            [(js ''Errands'', [\<lparr> row_content = js ''Buy milk'', row_due = js ''No due date'' \<rparr>])],
          LoggerLog (js ''Spreadsheet has been populated and formatted.''),
          LoggerLog (js ''Exporting spreadsheet to PDF...''),
          CallGetFolderById (js ''f''),
          CallCreateFile (js ''f'') (js ''sheet'') (js ''Todoist Report - 3-6-2024.pdf''),
          LoggerLog (js ''PDF file created: Todoist Report - 3-6-2024.pdf in folder \"Reports\"''),
          CallSetTrashed (js ''sheet''),
          LoggerLog (js ''Successfully created Todoist report PDF. Check your specified Google Drive folder.'')]"
    by (simp only: b' rest)
  from a' b'' docs sync show ?thesis by (intro conjI)
qed

text \<open>
  C8. If the fetch of the uncompleted tasks yields zero tasks, \<open>createTodoistReport\<close>
  logs that there is nothing to report and returns before it creates any spreadsheet
  or file: the run creates no document at all. Zero tasks is the same as an empty
  grouping result: a grouping that returns is empty exactly when the task list is.
\<close>

theorem no_tasks_no_document:
  assumes "apiToken \<noteq> []" and "folderId \<noteq> []"
    and "deleteYesterdaysReport svc folderId w = (ev1, w1)"
    and "fetch_projects svc (js ''Bearer '' @ apiToken) w1 = (Inr projects, w2)"
    and "fetch_tasks svc (js ''Bearer '' @ apiToken) w2 = (Inr [], w3)"
  shows "createTodoistReport svc (Some apiToken) (Some folderId) w =
           (LoggerLog (js ''Starting Todoist report generation...'') # ev1
              @ [LoggerLog (js ''Fetching projects from Todoist...''),
                 CallFetchProjects (js ''Bearer '' @ apiToken),
                 LoggerLog (js ''Fetching uncompleted tasks from Todoist...''),
                 CallFetchTasks (js ''Bearer '' @ apiToken),
                 LoggerLog (js ''Found '' @ Number_toString 0 @ js '' uncompleted tasks.''),
                 LoggerLog (js ''No uncompleted tasks found. Aborting.'')], w3)
       \<and> documents_created (fst (createTodoistReport svc (Some apiToken) (Some folderId) w)) = []
       \<and> (\<forall>st tasks R. group_tasks st (projectMap_of projects) tasks [] = Inr R \<longrightarrow>
             (R = [] \<longleftrightarrow> tasks = []))"
proof -
  have run: "createTodoistReport svc (Some apiToken) (Some folderId) w =
           (LoggerLog (js ''Starting Todoist report generation...'') # ev1
              @ [LoggerLog (js ''Fetching projects from Todoist...''),
                 CallFetchProjects (js ''Bearer '' @ apiToken),
                 LoggerLog (js ''Fetching uncompleted tasks from Todoist...''),
                 CallFetchTasks (js ''Bearer '' @ apiToken),
                 LoggerLog (js ''Found '' @ Number_toString 0 @ js '' uncompleted tasks.''),
                 LoggerLog (js ''No uncompleted tasks found. Aborting.'')], w3)"
    using assms
    by (simp add: createTodoistReport_def getUncompletedTasksByProject_def truthy_def Let_def)
  have "documents_created ev1 = []"
    using deleteYesterdaysReport_no_documents [of svc folderId w] assms(3) by simp
  then have "documents_created
      (fst (createTodoistReport svc (Some apiToken) (Some folderId) w)) = []"
    by (simp add: run)
  with run show ?thesis by (simp add: group_tasks_empty)
qed

theorem no_tasks_no_document_witness:
  "fetch_tasks sim_report_services (js ''Bearer k'') sim_drive_idle = (Inr [], sim_drive_idle)
   \<and> documents_created (fst (createTodoistReport sim_report_services (Some (js ''k''))
        (Some (js ''f'')) sim_drive_idle)) = []
   \<and> snd (createTodoistReport sim_report_services (Some (js ''k'')) (Some (js ''f''))
        sim_drive_idle) = sim_drive_idle"
proof -
  have k: "js ''k'' \<noteq> []" "js ''f'' \<noteq> []" by (simp_all add: js_def)
  have d: "deleteYesterdaysReport sim_report_services (js ''f'') sim_drive_idle =
      ([CallGetFolderById (js ''f''),
        CallGetFilesByName (js ''f'') (js ''Todoist Report - 3-5-2024.pdf''),
        LoggerLog (js ''No report from yesterday to clean up.'')], sim_drive_idle)"
    by (simp add: deleteYesterdaysReport_def sim_report_services_def sim_drive_idle_def
        march_6_def date_defs)
  have p: "fetch_projects sim_report_services (js ''Bearer '' @ js ''k'') sim_drive_idle
      = (Inr errands_projects, sim_drive_idle)"
    by (simp add: sim_report_services_def sim_drive_idle_def)
  have t: "fetch_tasks sim_report_services (js ''Bearer '' @ js ''k'') sim_drive_idle
      = (Inr [], sim_drive_idle)"
    by (simp add: sim_report_services_def sim_drive_idle_def)
  from no_tasks_no_document [OF k d p t] t show ?thesis by (simp add: js_def)
qed

text \<open>
  C9, as amended. The spreadsheet created for the current run is named
  \<open>Todoist Report - M-D-YYYY\<close> from the current date, month and day written in
  decimal without leading zero; the export stores the PDF under the spreadsheet's name
  followed by \<open>.pdf\<close>; the cleanup looks up the file whose name is the same naming
  rule applied to yesterday's date, followed by \<open>.pdf\<close>; when the folder holds no
  file of that name, the cleanup logs so and returns, with no trash call and no error.
\<close>

theorem report_names:
  "sheetName_of date =
     js ''Todoist Report - '' @ nat_digits (getMonth date + 1) @ js ''-''
       @ nat_digits (getDate date) @ js ''-'' @ Number_toString (getFullYear date)
   \<and> decimal_value (nat_digits n) = n
   \<and> (0 < n \<longrightarrow> hd (nat_digits n) \<noteq> of_char CHR ''0'')
   \<and> documents_created (fst (createAndPopulateSheet svc groups w)) = [sheetName_of (clock svc w)]
   \<and> (getFolderById svc folderId w = (Inr folder, w1) \<longrightarrow>
        documents_created (fst (exportSheetAsPdf svc ss folderId w)) = [getName ss @ js ''.pdf'']
        \<and> CallGetFilesByName folderId (sheetName_of (yesterday_of (clock svc w)) @ js ''.pdf'')
            \<in> set (fst (deleteYesterdaysReport svc folderId w))
        \<and> (getFilesByName svc folderId (sheetName_of (yesterday_of (clock svc w)) @ js ''.pdf'') w1
              = (Inr [], w2) \<longrightarrow>
            deleteYesterdaysReport svc folderId w =
              ([CallGetFolderById folderId,
                CallGetFilesByName folderId (sheetName_of (yesterday_of (clock svc w)) @ js ''.pdf''),
                LoggerLog (js ''No report from yesterday to clean up.'')], w2)))"
proof -
  have lookup: "CallGetFilesByName folderId (sheetName_of (yesterday_of (clock svc w)) @ js ''.pdf'')
            \<in> set (fst (deleteYesterdaysReport svc folderId w))"
    if "getFolderById svc folderId w = (Inr folder, w1)"
    using that
    by (simp add: deleteYesterdaysReport_def fileName_is_pdf_of_yesterday Let_def
        split: prod.splits sum.splits list.splits option.splits)
  have absent: "deleteYesterdaysReport svc folderId w =
              ([CallGetFolderById folderId,
                CallGetFilesByName folderId (sheetName_of (yesterday_of (clock svc w)) @ js ''.pdf''),
                LoggerLog (js ''No report from yesterday to clean up.'')], w2)"
    if "getFolderById svc folderId w = (Inr folder, w1)"
      and "getFilesByName svc folderId (sheetName_of (yesterday_of (clock svc w)) @ js ''.pdf'') w1
              = (Inr [], w2)"
    using that by (simp add: deleteYesterdaysReport_def fileName_is_pdf_of_yesterday Let_def)
  have name: "sheetName_of date =
     js ''Todoist Report - '' @ nat_digits (getMonth date + 1) @ js ''-''
       @ nat_digits (getDate date) @ js ''-'' @ Number_toString (getFullYear date)"
    by (simp add: sheetName_of_def Let_def Number_toString_nat Number_toString_Suc)
  have zero: "0 < n \<longrightarrow> hd (nat_digits n) \<noteq> of_char CHR ''0''"
    using nat_digits_no_leading_zero [of n] by simp
  have export: "documents_created (fst (exportSheetAsPdf svc ss folderId w))
      = [getName ss @ js ''.pdf'']"
    if "getFolderById svc folderId w = (Inr folder, w1)"
    using that by (rule exportSheetAsPdf_name)
  from name zero lookup absent export show ?thesis
    by (intro conjI impI)
       (simp_all only: decimal_value_nat_digits createAndPopulateSheet_documents simp_thms)
qed

text \<open>
  On 6 March 2024 the spreadsheet is \<open>Todoist Report - 3-6-2024\<close> and the cleanup
  looks for \<open>Todoist Report - 3-5-2024.pdf\<close>; the folder is empty, which is logged.
\<close>

theorem report_names_witness:
  "getFolderById sim_report_services (js ''f'') sim_drive_idle = (Inr (js ''Reports''), sim_drive_idle)
   \<and> sheetName_of march_6 = js ''Todoist Report - 3-6-2024''
   \<and> deleteYesterdaysReport sim_report_services (js ''f'') sim_drive_idle =
      ([CallGetFolderById (js ''f''),
        CallGetFilesByName (js ''f'') (js ''Todoist Report - 3-5-2024.pdf''),
        LoggerLog (js ''No report from yesterday to clean up.'')], sim_drive_idle)"
proof -
  have f: "getFolderById sim_report_services (js ''f'') sim_drive_idle
      = (Inr (js ''Reports''), sim_drive_idle)"
    by (simp add: sim_report_services_def)
  have y: "sheetName_of (yesterday_of (clock sim_report_services sim_drive_idle)) @ js ''.pdf''
      = js ''Todoist Report - 3-5-2024.pdf''"
    by (simp add: sim_report_services_def sim_drive_idle_def march_6_def date_defs)
  have g: "getFilesByName sim_report_services (js ''f'')
      (sheetName_of (yesterday_of (clock sim_report_services sim_drive_idle)) @ js ''.pdf'')
      sim_drive_idle = (Inr [], sim_drive_idle)"
    by (simp add: sim_report_services_def sim_drive_idle_def)
  have n: "nat_digits (getMonth march_6 + 1) = js ''3'' \<and> nat_digits (getDate march_6) = js ''6''
      \<and> Number_toString (getFullYear march_6) = js ''2024''"
    by (simp add: march_6_def date_defs)
  from report_names [of march_6 3 sim_report_services _ sim_drive_idle "js ''f''" "js ''Reports''"
      sim_drive_idle _ sim_drive_idle] f g n y
  show ?thesis by (simp add: js_def)
qed

text \<open>
  C9 as it was stated fails: the name that the cleanup looks up is not the naming rule
  applied to yesterday's date but that name followed by \<open>.pdf\<close>. A run with
  one task creates the spreadsheet of the bare name and stores the PDF under the
  name with \<open>.pdf\<close>.
\<close>

theorem report_names_counterexample:
  "fileName_of march_6 = js ''Todoist Report - 3-5-2024.pdf''
   \<and> sheetName_of (yesterday_of march_6) = js ''Todoist Report - 3-5-2024''
   \<and> fileName_of march_6 \<noteq> sheetName_of (yesterday_of march_6)
   \<and> documents_created (fst (createTodoistReport sim_report_services (Some (js ''k''))
        (Some (js ''f'')) (sim_drive_idle \<lparr> sim_tasks := [buy_milk] \<rparr>)))
       = [js ''Todoist Report - 3-6-2024'', js ''Todoist Report - 3-6-2024.pdf'']"
  by (simp add: march_6_def date_defs sim_report_services_def sim_drive_idle_def report_defs
      group_defs errands_projects_def buy_milk_def)

end
